theory Spec2Isabelle
  imports Main "HOL-Library.Finite_Map" "HOL-Library.Char_ord" "HOL-Library.List_Lexorder"
begin

section \<open>Data model\<close>

text \<open>
  A Go \<^verbatim>\<open>map[string]string\<close> is a finite map; \<open>None\<close> is the nil map, which
  \<^verbatim>\<open>reflect.DeepEqual\<close> distinguishes from an empty, initialised map.
\<close>

type_synonym smap = "(string, string) fmap option"

record ownerReference =
  RefKind :: string
  RefName :: string
  RefUID :: string
  RefController :: bool

text \<open>
  \<^verbatim>\<open>metav1.ObjectMeta\<close>, with the fields the handler reads or writes. The zero
  \<^verbatim>\<open>metav1.Time{}\<close> is \<open>0\<close>; the deletion timestamp is a pointer.
\<close>

record objectMeta =
  Name :: string
  Namespace :: string
  Generation :: int
  ResourceVersion :: string
  UID :: string
  CreationTimestamp :: nat
  DeletionTimestamp :: "nat option"
  Labels :: smap
  Annotations :: smap
  OwnerReferences :: "ownerReference list"
  Finalizers :: "string list"

record probe =
  FailureThreshold :: int
  PeriodSeconds :: int
  SuccessThreshold :: int
  TimeoutSeconds :: int

record volumeMount =
  MountName :: string
  MountPath :: string

record envVar =
  EnvName :: string
  EnvValue :: string

record container =
  ContainerName :: string
  Image :: string
  ImagePullPolicy :: string
  VolumeMounts :: "volumeMount list"
  Env :: "envVar list"
  LivenessProbe :: "probe option"
  ReadinessProbe :: "probe option"

record volume =
  VolumeName :: string
  VolumeSource :: string

record podSpec =
  NodeSelector :: smap
  Containers :: "container list"
  Volumes :: "volume list"

record podTemplateSpec =
  TemplateLabels :: smap
  TemplateAnnotations :: smap
  TemplateSpec :: podSpec

record esSpec =
  NodeSets :: "podTemplateSpec list"
  EsOther :: string

record kbSpec =
  KbPodTemplate :: podTemplateSpec
  ElasticsearchRef :: string
  KbOther :: string

text \<open>
  The Go types the handler switches on, one constructor each, carrying the fields the
  handler touches; whatever else a kind holds is one opaque comparable string.
  \<open>Service clusterIP other\<close>; \<open>Deployment replicas selector template\<close> (a nil
  \<^verbatim>\<open>*int32\<close> or \<^verbatim>\<open>*LabelSelector\<close> is \<open>None\<close>); \<open>DaemonSet selector template\<close>;
  \<open>ServiceAccount secrets imagePullSecrets\<close>; \<open>Elasticsearch spec status\<close>;
  \<open>Kibana spec status\<close>; \<open>Secret type data\<close>; \<open>RoleBinding roleRefName other\<close>;
  \<open>Alertmanager nodeSelector\<close>; \<open>Prometheus nodeSelector containers\<close>;
  \<open>OtherKind kindName content\<close> for every type without a case of its own.
\<close>

datatype payload =
    Service string string
  | Job podTemplateSpec
  | Deployment "int option" smap podTemplateSpec
  | DaemonSet smap podTemplateSpec
  | StatefulSet podTemplateSpec
  | CronJob podTemplateSpec
  | PodTemplate podTemplateSpec
  | ServiceAccount "string list" "string list"
  | Elasticsearch esSpec string
  | Kibana kbSpec string
  | UISettings string
  | NetworkPolicy string
  | Tier string
  | Secret string string
  | RoleBinding string string
  | ClusterRoleBinding string string
  | Alertmanager smap
  | Prometheus smap "container list"
  | NamespaceObj
  | OtherKind string string

datatype kind =
    KService | KJob | KDeployment | KDaemonSet | KStatefulSet | KCronJob | KPodTemplate
  | KServiceAccount | KElasticsearch | KKibana | KUISettings | KNetworkPolicy | KTier
  | KSecret | KRoleBinding | KClusterRoleBinding | KAlertmanager | KPrometheus
  | KNamespace | KOther string

fun kindOf :: "payload \<Rightarrow> kind" where
  "kindOf (Service _ _) = KService"
| "kindOf (Job _) = KJob"
| "kindOf (Deployment _ _ _) = KDeployment"
| "kindOf (DaemonSet _ _) = KDaemonSet"
| "kindOf (StatefulSet _) = KStatefulSet"
| "kindOf (CronJob _) = KCronJob"
| "kindOf (PodTemplate _) = KPodTemplate"
| "kindOf (ServiceAccount _ _) = KServiceAccount"
| "kindOf (Elasticsearch _ _) = KElasticsearch"
| "kindOf (Kibana _ _) = KKibana"
| "kindOf (UISettings _) = KUISettings"
| "kindOf (NetworkPolicy _) = KNetworkPolicy"
| "kindOf (Tier _) = KTier"
| "kindOf (Secret _ _) = KSecret"
| "kindOf (RoleBinding _ _) = KRoleBinding"
| "kindOf (ClusterRoleBinding _ _) = KClusterRoleBinding"
| "kindOf (Alertmanager _) = KAlertmanager"
| "kindOf (Prometheus _ _) = KPrometheus"
| "kindOf NamespaceObj = KNamespace"
| "kindOf (OtherKind k _) = KOther k"

record object =
  Meta :: objectMeta
  Payload :: payload

text \<open>The resource identity: kind, namespace, name.\<close>

type_synonym key = "kind \<times> string \<times> string"

definition ObjectKeyFromObject :: "object \<Rightarrow> key" where
  "ObjectKeyFromObject obj = (kindOf (Payload obj), Namespace (Meta obj), Name (Meta obj))"

subsection \<open>Errors\<close>

text \<open>
  An API status error carries a reason; \<^verbatim>\<open>fmt.Errorf("...: %w", err)\<close> wraps an error
  and the \<^verbatim>\<open>errors.Is...\<close> classifiers look through the wrapping.
\<close>

datatype error = NotFound | AlreadyExists | Conflict | Other string | Wrapped string error

fun IsNotFound :: "error \<Rightarrow> bool" where
  "IsNotFound NotFound = True"
| "IsNotFound (Wrapped _ e) = IsNotFound e"
| "IsNotFound _ = False"

fun IsAlreadyExists :: "error \<Rightarrow> bool" where
  "IsAlreadyExists AlreadyExists = True"
| "IsAlreadyExists (Wrapped _ e) = IsAlreadyExists e"
| "IsAlreadyExists _ = False"

fun IsConflict :: "error \<Rightarrow> bool" where
  "IsConflict Conflict = True"
| "IsConflict (Wrapped _ e) = IsConflict e"
| "IsConflict _ = False"

section \<open>Deduplication cache\<close>

text \<open>
  Modelled from the spec: the type \<^verbatim>\<open>objectCache\<close> behind \<^verbatim>\<open>dCache\<close> and its methods
  \<^verbatim>\<open>get\<close>, \<^verbatim>\<open>set\<close> and \<^verbatim>\<open>delete\<close> are not among the sources. The spec (4.2) gives the
  contract: a map from resource identity to the last snapshot and its generation;
  \<open>get\<close> returns snapshot, generation and whether an entry was found, \<open>set\<close>
  overwrites unconditionally, \<open>delete\<close> is idempotent.
\<close>

type_synonym objectCache = "(key, object \<times> int) fmap"

definition newCache :: objectCache where
  "newCache = fmempty"

definition cache_get :: "objectCache \<Rightarrow> object \<Rightarrow> (object \<times> int) option" where
  "cache_get dc obj = fmlookup dc (ObjectKeyFromObject obj)"

definition cache_set :: "objectCache \<Rightarrow> object \<Rightarrow> int \<Rightarrow> objectCache" where
  "cache_set dc obj gen = fmupd (ObjectKeyFromObject obj) (obj, gen) dc"

definition cache_delete :: "objectCache \<Rightarrow> object \<Rightarrow> objectCache" where
  "cache_delete dc obj = fmdrop (ObjectKeyFromObject obj) dc"

text \<open>\<^verbatim>\<open>needsUpdate\<close> (lines 163-194) reads nothing but the global cache and the object.\<close>

definition needsUpdate :: "objectCache \<Rightarrow> object \<Rightarrow> bool" where
  "needsUpdate dc obj =
     (case cache_get dc obj of
        None \<Rightarrow> True
      | Some (cachedObj, cachedGen) \<Rightarrow>
          if cachedGen < Generation (Meta obj) then True
          else if cachedObj = obj then False
          else True)"

section \<open>The cluster client and the world\<close>

text \<open>
  The cluster API client is an external collaborator: its four primitives are taken as
  parameters over an abstract cluster state \<open>'c\<close>. \<open>Create\<close> and \<open>Update\<close> write the
  server's reply back into the caller's object, so on success they return the object as
  the server filled it in (generation, resourceVersion, UID).
\<close>

record 'c client =
  clGet :: "key \<Rightarrow> 'c \<Rightarrow> (error + object) \<times> 'c"
  clCreate :: "object \<Rightarrow> 'c \<Rightarrow> (error + object) \<times> 'c"
  clUpdate :: "object \<Rightarrow> 'c \<Rightarrow> (error + object) \<times> 'c"
  clDelete :: "object \<Rightarrow> 'c \<Rightarrow> error option \<times> 'c"

text \<open>
  Functions the handler calls whose code is not among the sources, taken as parameters:
  \<^verbatim>\<open>controllerutil.SetOwnerReference\<close> and \<^verbatim>\<open>SetControllerReference\<close> (owner, then
  controlled metadata), \<^verbatim>\<open>GetInstallation\<close> reduced to the cipher-suite string it is
  read for, and the predicate \<^verbatim>\<open>IgnoreObject\<close>.
\<close>

record 'c externals =
  SetOwnerReference :: "objectMeta \<Rightarrow> objectMeta \<Rightarrow> error + objectMeta"
  SetControllerReference :: "objectMeta \<Rightarrow> objectMeta \<Rightarrow> error + objectMeta"
  GetInstallation :: "'c \<Rightarrow> (error + string) \<times> 'c"
  IgnoreObject :: "object \<Rightarrow> bool"

record 'c componentHandler =
  client :: "'c client"
  cr :: "objectMeta option"
  createOnly :: bool
  ext :: "'c externals"

definition SetCreateOnly :: "'c componentHandler \<Rightarrow> 'c componentHandler" where
  "SetCreateOnly c = c\<lparr>createOnly := True\<rparr>"

datatype call = CallGet key | CallCreate object | CallUpdate object | CallDelete object

datatype statusCall =
    AddDaemonsets "(string \<times> string) list"
  | AddDeployments "(string \<times> string) list"
  | AddStatefulSets "(string \<times> string) list"
  | AddCronJobs "(string \<times> string) list"
  | RemoveDeployments "string \<times> string"
  | RemoveDaemonsets "string \<times> string"
  | RemoveStatefulSets "string \<times> string"
  | RemoveCronJobs "string \<times> string"
  | ReadyToMonitor

text \<open>
  Everything the handler can change: the cluster behind the client, the process-wide
  cache \<^verbatim>\<open>dCache\<close>, and two logs kept for the statements below: the client calls issued
  and the status-manager calls made, each in order.
\<close>

record 'c world =
  cluster :: 'c
  dCache :: objectCache
  calls :: "call list"
  statusCalls :: "statusCall list"

text \<open>
  The typed client decodes the reply into the caller's object, so a successful
  \<^verbatim>\<open>Get\<close> yields an object of the requested type; a reply of another kind is a
  decoding error.
\<close>

definition cli_get :: "'c componentHandler \<Rightarrow> key \<Rightarrow> 'c world \<Rightarrow> (error + object) \<times> 'c world" where
  "cli_get c k w =
     (case clGet (client c) k (cluster w) of
        (r, cl) \<Rightarrow>
          ((case r of
              Inl err \<Rightarrow> Inl err
            | Inr obj \<Rightarrow> if kindOf (Payload obj) = fst k then Inr obj
                         else Inl (Other ''cannot decode object'')),
           w\<lparr>cluster := cl, calls := calls w @ [CallGet k]\<rparr>))"

definition cli_create :: "'c componentHandler \<Rightarrow> object \<Rightarrow> 'c world \<Rightarrow> (error + object) \<times> 'c world" where
  "cli_create c obj w =
     (case clCreate (client c) obj (cluster w) of
        (r, cl) \<Rightarrow> (r, w\<lparr>cluster := cl, calls := calls w @ [CallCreate obj]\<rparr>))"

definition cli_update :: "'c componentHandler \<Rightarrow> object \<Rightarrow> 'c world \<Rightarrow> (error + object) \<times> 'c world" where
  "cli_update c obj w =
     (case clUpdate (client c) obj (cluster w) of
        (r, cl) \<Rightarrow> (r, w\<lparr>cluster := cl, calls := calls w @ [CallUpdate obj]\<rparr>))"

definition cli_delete :: "'c componentHandler \<Rightarrow> object \<Rightarrow> 'c world \<Rightarrow> error option \<times> 'c world" where
  "cli_delete c obj w =
     (case clDelete (client c) obj (cluster w) of
        (r, cl) \<Rightarrow> (r, w\<lparr>cluster := cl, calls := calls w @ [CallDelete obj]\<rparr>))"

section \<open>Cached writes\<close>

text \<open>\<^verbatim>\<open>create\<close> (lines 95-108): the copy taken before the call is what the cache keeps.\<close>

definition create :: "'c componentHandler \<Rightarrow> object \<Rightarrow> 'c world \<Rightarrow> error option \<times> 'c world" where
  "create c obj w =
     (let cp = obj in
      case cli_create c obj w of
        (Inl err, w1) \<Rightarrow> (Some err, w1)
      | (Inr obj', w1) \<Rightarrow>
          (None, w1\<lparr>dCache := cache_set (dCache w1) cp (Generation (Meta obj'))\<rparr>))"

text \<open>\<^verbatim>\<open>update\<close> (lines 110-135).\<close>

definition update :: "'c componentHandler \<Rightarrow> object \<Rightarrow> 'c world \<Rightarrow> error option \<times> 'c world" where
  "update c obj w =
     (if \<not> needsUpdate (dCache w) obj then (None, w)
      else
        let cp = obj in
        case cli_update c obj w of
          (Inl err, w1) \<Rightarrow>
            (Some err,
             if IsNotFound err then w1\<lparr>dCache := cache_delete (dCache w1) obj\<rparr> else w1)
        | (Inr obj', w1) \<Rightarrow>
            (None, w1\<lparr>dCache := cache_set (dCache w1) cp (Generation (Meta obj'))\<rparr>))"

text \<open>
  \<^verbatim>\<open>delete\<close> (lines 137-161). The lookup reads into \<open>obj\<close> itself, so after a
  successful lookup it is the fetched object that is deleted; only a not-found lookup
  skips the delete call, any other lookup error is dropped.
\<close>

definition delete :: "'c componentHandler \<Rightarrow> object \<Rightarrow> 'c world \<Rightarrow> error option \<times> 'c world" where
  "delete c obj w =
     (let key = ObjectKeyFromObject obj in
      case cli_get c key w of
        (r, w1) \<Rightarrow>
          if (case r of Inl err \<Rightarrow> IsNotFound err | Inr _ \<Rightarrow> False)
          then (None, w1\<lparr>dCache := cache_delete (dCache w1) obj\<rparr>)
          else
            (let obj1 = (case r of Inl _ \<Rightarrow> obj | Inr fetched \<Rightarrow> fetched) in
             (case cli_delete c obj1 w1 of
                (Some err, w2) \<Rightarrow>
                  (Some err,
                   (if IsNotFound err then w2\<lparr>dCache := cache_delete (dCache w2) obj1\<rparr> else w2))
              | (None, w2) \<Rightarrow> (None, w2\<lparr>dCache := cache_delete (dCache w2) obj1\<rparr>))))"

section \<open>Mutations applied to the desired object\<close>

text \<open>
  Modelled from the spec: the constants \<^verbatim>\<open>common.MultipleOwnersLabel\<close> and
  \<^verbatim>\<open>rmeta.OSTypeAny\<close> are declared outside the sources; the spec speaks of a marker
  label and of an optional operating-system constraint. No statement below depends on
  the strings chosen here.
\<close>

definition MultipleOwnersLabel :: string where
  "MultipleOwnersLabel = ''operator.tigera.io/multiple-owners''"

type_synonym OSType = string

definition OSTypeAny :: OSType where
  "OSTypeAny = ''any''"

definition TLS_CIPHERS_ENV_VAR_NAME :: string where
  "TLS_CIPHERS_ENV_VAR_NAME = ''TLS_CIPHER_SUITES''"

text \<open>Reading a Go map: a nil map has no keys, a missing key reads as the empty string.\<close>

definition hasKey :: "smap \<Rightarrow> string \<Rightarrow> bool" where
  "hasKey m k = (case m of None \<Rightarrow> False | Some f \<Rightarrow> fmlookup f k \<noteq> None)"

definition readKey :: "(string, string) fmap \<Rightarrow> string \<Rightarrow> string" where
  "readKey f k = (case fmlookup f k of None \<Rightarrow> [] | Some v \<Rightarrow> v)"

text \<open>\<^verbatim>\<open>common.MapExistsOrInitialize\<close>: the map itself, or a fresh empty one for nil.\<close>

definition MapExistsOrInitialize :: "smap \<Rightarrow> (string, string) fmap" where
  "MapExistsOrInitialize m = (case m of None \<Rightarrow> fmempty | Some f \<Rightarrow> f)"

definition skipAddingOwnerReference :: "objectMeta \<Rightarrow> objectMeta \<Rightarrow> bool" where
  "skipAddingOwnerReference owner controlled =
     (if Namespace owner \<noteq> [] \<and> Namespace controlled = [] then True else False)"

definition checkIfMultipleOwnersLabel :: "objectMeta \<Rightarrow> bool" where
  "checkIfMultipleOwnersLabel controlled = hasKey (Labels controlled) MultipleOwnersLabel"

text \<open>The owner-reference step of \<^verbatim>\<open>createOrUpdateObject\<close> (lines 202-219).\<close>

definition addOwnerReference :: "'c componentHandler \<Rightarrow> bool \<Rightarrow> object \<Rightarrow> error + object" where
  "addOwnerReference c multipleOwners obj =
     (case Payload obj of
        UISettings _ \<Rightarrow> Inr obj
      | _ \<Rightarrow>
          (case cr c of
             None \<Rightarrow> Inr obj
           | Some owner \<Rightarrow>
               if skipAddingOwnerReference owner (Meta obj) then Inr obj
               else
                 (case (if multipleOwners then SetOwnerReference (ext c) owner (Meta obj)
                        else SetControllerReference (ext c) owner (Meta obj)) of
                    Inl err \<Rightarrow> Inl err
                  | Inr m \<Rightarrow> Inr (obj\<lparr>Meta := m\<rparr>))))"

definition onTemplateSpec :: "(podSpec \<Rightarrow> podSpec) \<Rightarrow> podTemplateSpec \<Rightarrow> podTemplateSpec" where
  "onTemplateSpec f t = t\<lparr>TemplateSpec := f (TemplateSpec t)\<rparr>"

fun modifyPodSpecPayload :: "(podSpec \<Rightarrow> podSpec) \<Rightarrow> payload \<Rightarrow> payload" where
  "modifyPodSpecPayload f (PodTemplate t) = PodTemplate (onTemplateSpec f t)"
| "modifyPodSpecPayload f (Deployment r s t) = Deployment r s (onTemplateSpec f t)"
| "modifyPodSpecPayload f (DaemonSet s t) = DaemonSet s (onTemplateSpec f t)"
| "modifyPodSpecPayload f (StatefulSet t) = StatefulSet (onTemplateSpec f t)"
| "modifyPodSpecPayload f (CronJob t) = CronJob (onTemplateSpec f t)"
| "modifyPodSpecPayload f (Job t) = Job (onTemplateSpec f t)"
| "modifyPodSpecPayload f (Kibana sp st) =
     Kibana (sp\<lparr>KbPodTemplate := onTemplateSpec f (KbPodTemplate sp)\<rparr>) st"
| "modifyPodSpecPayload f (Elasticsearch sp st) =
     Elasticsearch (sp\<lparr>NodeSets := map (onTemplateSpec f) (NodeSets sp)\<rparr>) st"
| "modifyPodSpecPayload f p = p"

definition modifyPodSpec :: "object \<Rightarrow> (podSpec \<Rightarrow> podSpec) \<Rightarrow> object" where
  "modifyPodSpec obj f = obj\<lparr>Payload := modifyPodSpecPayload f (Payload obj)\<rparr>"

definition setImagePullPolicy :: "podSpec \<Rightarrow> podSpec" where
  "setImagePullPolicy podSpec =
     podSpec\<lparr>Containers :=
       map (\<lambda>c. if length (ImagePullPolicy c) = 0 then c\<lparr>ImagePullPolicy := ''IfNotPresent''\<rparr> else c)
           (Containers podSpec)\<rparr>"

text \<open>
  \<^verbatim>\<open>slices.SortFunc\<close> by name. Go's sort is not stable; for equal names the model takes
  the stable result.
\<close>

definition orderVolumes :: "podSpec \<Rightarrow> podSpec" where
  "orderVolumes podSpec = podSpec\<lparr>Volumes := sort_key VolumeName (Volumes podSpec)\<rparr>"

definition orderVolumeMounts :: "podSpec \<Rightarrow> podSpec" where
  "orderVolumeMounts podSpec =
     podSpec\<lparr>Containers :=
       map (\<lambda>c. c\<lparr>VolumeMounts := sort_key MountName (VolumeMounts c)\<rparr>) (Containers podSpec)\<rparr>"

definition setOSNodeSelector :: "OSType \<Rightarrow> smap \<Rightarrow> smap" where
  "setOSNodeSelector osType sel = Some (fmupd ''kubernetes.io/os'' osType (MapExistsOrInitialize sel))"

definition ensureOSSchedulingRestrictions :: "object \<Rightarrow> OSType \<Rightarrow> object" where
  "ensureOSSchedulingRestrictions obj osType =
     (if osType = OSTypeAny then obj
      else
        (case Payload obj of
           Alertmanager sel \<Rightarrow> obj\<lparr>Payload := Alertmanager (setOSNodeSelector osType sel)\<rparr>
         | Prometheus sel cs \<Rightarrow> obj\<lparr>Payload := Prometheus (setOSNodeSelector osType sel) cs\<rparr>
         | _ \<Rightarrow>
             modifyPodSpec obj
               (\<lambda>podSpec. podSpec\<lparr>NodeSelector := setOSNodeSelector osType (NodeSelector podSpec)\<rparr>)))"

text \<open>\<^verbatim>\<open>setProbeTimeouts\<close> (lines 890-950): unset (zero) fields of a probe get defaults.\<close>

definition defaultProbe :: "int \<Rightarrow> probe \<Rightarrow> probe" where
  "defaultProbe periodSeconds p =
     p\<lparr>FailureThreshold := (if FailureThreshold p = 0 then 3 else FailureThreshold p),
       PeriodSeconds := (if PeriodSeconds p = 0 then periodSeconds else PeriodSeconds p),
       SuccessThreshold := (if SuccessThreshold p = 0 then 1 else SuccessThreshold p),
       TimeoutSeconds := (if TimeoutSeconds p = 0 then 5 else TimeoutSeconds p)\<rparr>"

definition probeDefaults :: "container \<Rightarrow> container" where
  "probeDefaults c =
     c\<lparr>LivenessProbe := map_option (defaultProbe 60) (LivenessProbe c),
       ReadinessProbe := map_option (defaultProbe 30) (ReadinessProbe c)\<rparr>"

definition onContainers :: "(container \<Rightarrow> container) \<Rightarrow> podTemplateSpec \<Rightarrow> podTemplateSpec" where
  "onContainers f t =
     t\<lparr>TemplateSpec := (TemplateSpec t)\<lparr>Containers := map f (Containers (TemplateSpec t))\<rparr>\<rparr>"

definition setProbeTimeouts :: "object \<Rightarrow> object" where
  "setProbeTimeouts obj =
     (case Payload obj of
        Deployment r s t \<Rightarrow> obj\<lparr>Payload := Deployment r s (onContainers probeDefaults t)\<rparr>
      | DaemonSet s t \<Rightarrow> obj\<lparr>Payload := DaemonSet s (onContainers probeDefaults t)\<rparr>
      | Elasticsearch sp st \<Rightarrow>
          obj\<lparr>Payload :=
            Elasticsearch (sp\<lparr>NodeSets := map (onContainers probeDefaults) (NodeSets sp)\<rparr>) st\<rparr>
      | Kibana sp st \<Rightarrow>
          obj\<lparr>Payload :=
            Kibana (sp\<lparr>KbPodTemplate := onContainers probeDefaults (KbPodTemplate sp)\<rparr>) st\<rparr>
      | Prometheus sel cs \<Rightarrow> obj\<lparr>Payload := Prometheus sel (map probeDefaults cs)\<rparr>
      | _ \<Rightarrow> obj)"

text \<open>\<^verbatim>\<open>setStandardSelectorAndLabels\<close> (lines 955-999).\<close>

definition defaultSelector :: "string \<Rightarrow> smap \<Rightarrow> smap" where
  "defaultSelector name sel =
     (case sel of None \<Rightarrow> Some (fmupd ''k8s-app'' name fmempty) | Some f \<Rightarrow> Some f)"

definition standardTemplateLabels :: "string \<Rightarrow> podTemplateSpec \<Rightarrow> podTemplateSpec" where
  "standardTemplateLabels name t =
     (let l0 = MapExistsOrInitialize (TemplateLabels t);
          l1 = (if readKey l0 ''k8s-app'' = [] then fmupd ''k8s-app'' name l0 else l0);
          l2 = (if readKey l1 ''app.kubernetes.io/name'' = []
                then fmupd ''app.kubernetes.io/name'' name l1 else l1)
      in t\<lparr>TemplateLabels := Some l2\<rparr>)"

definition setStandardSelectorAndLabels :: "object \<Rightarrow> object" where
  "setStandardSelectorAndLabels obj =
     (let name = Name (Meta obj) in
      case Payload obj of
        Deployment r s t \<Rightarrow>
          obj\<lparr>Meta := (Meta obj)\<lparr>Labels :=
                  Some (fmupd ''app.kubernetes.io/name'' name
                         (fmupd ''k8s-app'' name (MapExistsOrInitialize (Labels (Meta obj)))))\<rparr>,
              Payload := Deployment r (defaultSelector name s) (standardTemplateLabels name t)\<rparr>
      | DaemonSet s t \<Rightarrow>
          obj\<lparr>Payload := DaemonSet (defaultSelector name s) (standardTemplateLabels name t)\<rparr>
      | _ \<Rightarrow> obj)"

text \<open>\<^verbatim>\<open>ensureTLSCiphers\<close> (lines 787-825); the installation lookup goes to the cluster.\<close>

definition addCipherEnv :: "string \<Rightarrow> container \<Rightarrow> container" where
  "addCipherEnv envVarValue c =
     (let exists = list_ex (\<lambda>envVar. EnvName envVar = TLS_CIPHERS_ENV_VAR_NAME) (Env c) in
      if \<not> exists \<and> envVarValue \<noteq> []
      then c\<lparr>Env := Env c @ [\<lparr>EnvName = TLS_CIPHERS_ENV_VAR_NAME, EnvValue = envVarValue\<rparr>]\<rparr>
      else c)"

definition withInstallationCiphers ::
  "'c componentHandler \<Rightarrow> (string \<Rightarrow> object) \<Rightarrow> object \<Rightarrow> 'c world \<Rightarrow> (error + object) \<times> 'c world" where
  "withInstallationCiphers c inject obj w =
     (case GetInstallation (ext c) (cluster w) of
        (Inl err, cl) \<Rightarrow>
          (if IsNotFound err then (Inr obj, w\<lparr>cluster := cl\<rparr>) else (Inl err, w\<lparr>cluster := cl\<rparr>))
      | (Inr envVarValue, cl) \<Rightarrow> (Inr (inject envVarValue), w\<lparr>cluster := cl\<rparr>))"

definition ensureTLSCiphers ::
  "'c componentHandler \<Rightarrow> object \<Rightarrow> 'c world \<Rightarrow> (error + object) \<times> 'c world" where
  "ensureTLSCiphers c obj w =
     (case Payload obj of
        Deployment r s t \<Rightarrow>
          withInstallationCiphers c
            (\<lambda>v. obj\<lparr>Payload := Deployment r s (onContainers (addCipherEnv v) t)\<rparr>) obj w
      | DaemonSet s t \<Rightarrow>
          withInstallationCiphers c
            (\<lambda>v. obj\<lparr>Payload := DaemonSet s (onContainers (addCipherEnv v) t)\<rparr>) obj w
      | _ \<Rightarrow> (Inr obj, w))"

text \<open>
  Lines 221-242 of \<^verbatim>\<open>createOrUpdateObject\<close>, in order: scheduling restrictions, image
  pull policy, volume and mount order, probe defaults, standard labels, TLS ciphers.
\<close>

definition mutateObject ::
  "'c componentHandler \<Rightarrow> object \<Rightarrow> OSType \<Rightarrow> 'c world \<Rightarrow> (error + object) \<times> 'c world" where
  "mutateObject c obj osType w =
     (let obj1 = ensureOSSchedulingRestrictions obj osType;
          obj2 = modifyPodSpec obj1 setImagePullPolicy;
          obj3 = modifyPodSpec obj2 orderVolumes;
          obj4 = modifyPodSpec obj3 orderVolumeMounts;
          obj5 = setProbeTimeouts obj4;
          obj6 = setStandardSelectorAndLabels obj5
      in case ensureTLSCiphers c obj6 w of
           (Inl err, w1) \<Rightarrow> (Inl (Wrapped ''failed to set TLS Ciphers'' err), w1)
         | (Inr obj7, w1) \<Rightarrow> (Inr obj7, w1))"

section \<open>Merging desired and current state\<close>

text \<open>
  Modelled from the spec: \<^verbatim>\<open>common.MergeMaps\<close> and \<^verbatim>\<open>common.MergeOwnerReferences\<close> are
  not among the sources. The spec (4.4): labels and annotations are merged as a union
  with the desired values winning on a key conflict; owner references are merged as
  desired \<open>\<union>\<close> current, deduplicated.
\<close>

definition MergeMaps :: "(string, string) fmap \<Rightarrow> (string, string) fmap \<Rightarrow> (string, string) fmap" where
  "MergeMaps current desired = current ++\<^sub>f desired"

definition MergeOwnerReferences :: "ownerReference list \<Rightarrow> ownerReference list \<Rightarrow> ownerReference list" where
  "MergeOwnerReferences desired current = remdups (desired @ current)"

text \<open>The metadata part of \<^verbatim>\<open>mergeState\<close>, common to all kinds (lines 560-596).\<close>

definition mergeMeta :: "objectMeta \<Rightarrow> objectMeta \<Rightarrow> objectMeta" where
  "mergeMeta desiredMeta currentMeta =
     (let m1 = (if ResourceVersion desiredMeta = []
                then desiredMeta\<lparr>ResourceVersion := ResourceVersion currentMeta\<rparr> else desiredMeta);
          m2 = (if UID m1 = [] then m1\<lparr>UID := UID currentMeta\<rparr> else m1);
          m3 = (if CreationTimestamp m2 = 0
                then m2\<lparr>CreationTimestamp := CreationTimestamp currentMeta\<rparr> else m2);
          m4 = m3\<lparr>Generation := Generation currentMeta\<rparr>;
          m5 = m4\<lparr>Annotations :=
                  Some (MergeMaps (MapExistsOrInitialize (Annotations currentMeta))
                                  (MapExistsOrInitialize (Annotations m4)))\<rparr>;
          m6 = m5\<lparr>Labels :=
                  Some (MergeMaps (MapExistsOrInitialize (Labels currentMeta))
                                  (MapExistsOrInitialize (Labels m5)))\<rparr>
      in if checkIfMultipleOwnersLabel m6
         then m6\<lparr>OwnerReferences :=
                   MergeOwnerReferences (OwnerReferences m6) (OwnerReferences currentMeta),
                 Labels := map_option (fmdrop MultipleOwnersLabel) (Labels m6)\<rparr>
         else m6)"

definition mergeTemplateMeta :: "podTemplateSpec \<Rightarrow> podTemplateSpec \<Rightarrow> podTemplateSpec" where
  "mergeTemplateMeta dt ct =
     dt\<lparr>TemplateLabels :=
          Some (MergeMaps (MapExistsOrInitialize (TemplateLabels ct))
                          (MapExistsOrInitialize (TemplateLabels dt))),
        TemplateAnnotations :=
          Some (MergeMaps (MapExistsOrInitialize (TemplateAnnotations ct))
                          (MapExistsOrInitialize (TemplateAnnotations dt)))\<rparr>"

text \<open>The image comparison loop of the Job case, run on two lists of equal length.\<close>

fun imagesDiffer :: "container list \<Rightarrow> container list \<Rightarrow> bool" where
  "imagesDiffer (c # cs) (d # ds) = (if Image c \<noteq> Image d then True else imagesDiffer cs ds)"
| "imagesDiffer _ _ = False"

text \<open>
  \<^verbatim>\<open>mergeState\<close> (lines 552-749): \<open>None\<close> is the nil result. The current object was read
  into a copy of the desired one, so both have the same Go type; for a current object
  of another kind, where the Go type assertion would panic, the model gives the default
  result.
\<close>

definition mergeState :: "object \<Rightarrow> object \<Rightarrow> object option" where
  "mergeState desired0 current =
     (let desired = desired0\<lparr>Meta := mergeMeta (Meta desired0) (Meta current)\<rparr> in
      case (Payload desired, Payload current) of
        (Service dIP dOther, Service cIP _) \<Rightarrow>
          Some (desired\<lparr>Payload := Service (if dIP \<noteq> ''None'' then cIP else dIP) dOther\<rparr>)
      | (Job dj, Job cj) \<Rightarrow>
          if length (Containers (TemplateSpec cj)) \<noteq> length (Containers (TemplateSpec dj))
          then Some desired
          else if imagesDiffer (Containers (TemplateSpec cj)) (Containers (TemplateSpec dj))
          then Some desired
          else if TemplateAnnotations cj = TemplateAnnotations dj then None
          else Some desired
      | (Deployment dReplicas dSel dt, Deployment cReplicas _ ct) \<Rightarrow>
          Some (desired\<lparr>Payload :=
                  Deployment (if dReplicas = None then cReplicas else dReplicas) dSel
                             (mergeTemplateMeta dt ct)\<rparr>)
      | (DaemonSet dSel dt, DaemonSet _ ct) \<Rightarrow>
          Some (desired\<lparr>Payload := DaemonSet dSel (mergeTemplateMeta dt ct)\<rparr>)
      | (ServiceAccount dSecrets dPull, ServiceAccount cSecrets cPull) \<Rightarrow>
          Some (desired\<lparr>Payload :=
                  ServiceAccount
                    (if length cSecrets \<noteq> 0 \<and> length dSecrets = 0 then cSecrets else dSecrets)
                    (if length cPull \<noteq> 0 \<and> length dPull = 0 then cPull else dPull)\<rparr>)
      | (Elasticsearch dSpec _, Elasticsearch cSpec cStatus) \<Rightarrow>
          if cSpec = dSpec then Some current
          else Some (desired\<lparr>Meta := (Meta desired)\<lparr>Annotations := Annotations (Meta current),
                                                    Finalizers := Finalizers (Meta current)\<rparr>,
                             Payload := Elasticsearch dSpec cStatus\<rparr>)
      | (Kibana dSpec _, Kibana cSpec cStatus) \<Rightarrow>
          if cSpec = dSpec then Some current
          else Some (desired\<lparr>Meta := (Meta desired)\<lparr>Annotations := Annotations (Meta current),
                                                    Finalizers := Finalizers (Meta current)\<rparr>,
                             Payload :=
                               Kibana (dSpec\<lparr>ElasticsearchRef := ElasticsearchRef cSpec\<rparr>) cStatus\<rparr>)
      | (UISettings dSpec, UISettings cSpec) \<Rightarrow>
          if cSpec = dSpec then Some current
          else Some (desired\<lparr>Meta := (Meta desired)\<lparr>OwnerReferences := OwnerReferences (Meta current)\<rparr>\<rparr>)
      | (NetworkPolicy dSpec, NetworkPolicy cSpec) \<Rightarrow>
          if cSpec = dSpec then None else Some desired
      | (Tier dSpec, Tier cSpec) \<Rightarrow>
          if cSpec = dSpec then None else Some desired
      | _ \<Rightarrow> Some desired)"

definition resetMetadataForCreate :: "object \<Rightarrow> object" where
  "resetMetadataForCreate obj =
     obj\<lparr>Meta := (Meta obj)\<lparr>ResourceVersion := [], UID := [], CreationTimestamp := 0\<rparr>\<rparr>"

section \<open>The reconciliation engine\<close>

text \<open>
  Modelled from the spec: the helper \<^verbatim>\<open>GetIfExists\<close> is not among the sources. By the
  spec (4.5, step b) an absent namespace is no error and an unexpected lookup failure
  is propagated: a not-found lookup gives no object and no error.
\<close>

definition GetIfExists ::
  "'c componentHandler \<Rightarrow> key \<Rightarrow> 'c world \<Rightarrow> (error + object option) \<times> 'c world" where
  "GetIfExists c k w =
     (case cli_get c k w of
        (Inl err, w1) \<Rightarrow> (if IsNotFound err then (Inr None, w1) else (Inl err, w1))
      | (Inr obj, w1) \<Rightarrow> (Inr (Some obj), w1))"

text \<open>Lines 261-274: is the object's namespace there and terminating?\<close>

definition namespaceTerminating ::
  "'c componentHandler \<Rightarrow> object \<Rightarrow> 'c world \<Rightarrow> (error + bool) \<times> 'c world" where
  "namespaceTerminating c cur w =
     (let ns = Namespace (Meta cur) in
      if ns \<noteq> [] then
        (case GetIfExists c (KNamespace, [], ns) w of
           (Inl err, w1) \<Rightarrow> (Inl err, w1)
         | (Inr None, w1) \<Rightarrow> (Inr False, w1)
         | (Inr (Some namespace), w1) \<Rightarrow> (Inr (DeletionTimestamp (Meta namespace) \<noteq> None), w1))
      else (Inr False, w))"

definition stripMultipleOwnersLabel :: "object \<Rightarrow> object" where
  "stripMultipleOwnersLabel obj =
     obj\<lparr>Meta := (Meta obj)\<lparr>Labels := map_option (fmdrop MultipleOwnersLabel) (Labels (Meta obj))\<rparr>\<rparr>"

text \<open>
  The branch of \<^verbatim>\<open>createOrUpdateObject\<close> taken when the lookup of the object failed
  with \<open>err\<close> (lines 252-293). A failed lookup leaves the copy \<open>cur\<close> as it was, so its
  namespace is the desired object's.
\<close>

definition createMissing ::
  "'c componentHandler \<Rightarrow> bool \<Rightarrow> object \<Rightarrow> error \<Rightarrow> 'c world \<Rightarrow> error option \<times> 'c world" where
  "createMissing c multipleOwners obj err w =
     (let w0 = w\<lparr>dCache := cache_delete (dCache w) obj\<rparr> in
      if \<not> IsNotFound err then (Some err, w0)
      else
        (case namespaceTerminating c obj w0 of
           (Inl nsErr, w1) \<Rightarrow> (Some nsErr, w1)
         | (Inr terminating, w1) \<Rightarrow>
             if terminating then (None, w1)
             else create c (if multipleOwners then stripMultipleOwnersLabel obj else obj) w1))"

text \<open>
  When the merged object is to be written: the type switch of lines 316-407. Each of its
  five branches, when its condition holds, deletes \<open>obj\<close> and creates the merged object
  with its metadata reset; otherwise control reaches the update of line 408.
\<close>

definition needsRecreate :: "object \<Rightarrow> object \<Rightarrow> bool" where
  "needsRecreate obj cur =
     (case (Payload obj, Payload cur) of
        (Job _, _) \<Rightarrow> True
      | (Secret objType _, Secret curType _) \<Rightarrow>
          objType \<noteq> curType \<and> \<not> (length objType = 0 \<and> curType = ''Opaque'')
      | (Service objIP _, Service curIP _) \<Rightarrow> objIP = ''None'' \<and> curIP \<noteq> ''None''
      | (RoleBinding objRef _, RoleBinding curRef _) \<Rightarrow> objRef \<noteq> curRef
      | (ClusterRoleBinding objRef _, ClusterRoleBinding curRef _) \<Rightarrow> objRef \<noteq> curRef
      | _ \<Rightarrow> False)"

definition recreate ::
  "'c componentHandler \<Rightarrow> object \<Rightarrow> object \<Rightarrow> 'c world \<Rightarrow> error option \<times> 'c world" where
  "recreate c obj mobj w =
     (case delete c obj w of
        (Some err, w1) \<Rightarrow> (Some err, w1)
      | (None, w1) \<Rightarrow> create c (resetMetadataForCreate mobj) w1)"

text \<open>The branch taken when the lookup found \<open>cur\<close> (lines 295-413).\<close>

definition updateExisting ::
  "'c componentHandler \<Rightarrow> object \<Rightarrow> object \<Rightarrow> 'c world \<Rightarrow> error option \<times> 'c world" where
  "updateExisting c obj cur w =
     (if createOnly c then (Some AlreadyExists, w)
      else if IgnoreObject (ext c) cur then (None, w)
      else
        (case mergeState obj cur of
           None \<Rightarrow> (None, w)
         | Some mobj \<Rightarrow>
             if needsRecreate obj cur then recreate c obj mobj w else update c mobj w))"

text \<open>\<^verbatim>\<open>createOrUpdateObject\<close> (lines 196-414).\<close>

definition createOrUpdateObject ::
  "'c componentHandler \<Rightarrow> object \<Rightarrow> OSType \<Rightarrow> 'c world \<Rightarrow> error option \<times> 'c world" where
  "createOrUpdateObject c obj0 osType w =
     (let multipleOwners = checkIfMultipleOwnersLabel (Meta obj0) in
      case addOwnerReference c multipleOwners obj0 of
        Inl err \<Rightarrow> (Some err, w)
      | Inr obj1 \<Rightarrow>
          (let key = ObjectKeyFromObject obj1 in
           case mutateObject c obj1 osType w of
             (Inl err, w1) \<Rightarrow> (Some err, w1)
           | (Inr obj, w1) \<Rightarrow>
               (case cli_get c key w1 of
                  (Inl err, w2) \<Rightarrow> createMissing c multipleOwners obj err w2
                | (Inr cur, w2) \<Rightarrow> updateExisting c obj cur w2)))"

subsection \<open>The loop over the desired objects\<close>

record component =
  Ready :: bool
  ObjectsToCreate :: "object list"
  ObjectsToDelete :: "object list"
  SupportedOSType :: OSType

datatype outcome = Done | SawAlreadyExists error | Failed error

text \<open>
  The body of the loop up to the bookkeeping (lines 450-467): one attempt, and the jump
  back to \<^verbatim>\<open>conflictRetry\<close> guarded by the flag \<^verbatim>\<open>alreadyRetriedConflict\<close>. Every attempt
  gets a fresh copy of the desired object.
\<close>

function conflictRetry ::
  "'c componentHandler \<Rightarrow> object \<Rightarrow> OSType \<Rightarrow> bool \<Rightarrow> 'c world \<Rightarrow> outcome \<times> 'c world" where
  "conflictRetry c obj osType alreadyRetriedConflict w =
     (case createOrUpdateObject c obj osType w of
        (None, w1) \<Rightarrow> (Done, w1)
      | (Some err, w1) \<Rightarrow>
          if IsAlreadyExists err then (SawAlreadyExists err, w1)
          else if IsConflict err \<and> \<not> alreadyRetriedConflict
          then conflictRetry c obj osType True w1
          else (Failed err, w1))"
  by pat_completeness auto
termination
  by (relation "measure (\<lambda>(c, obj, osType, alreadyRetriedConflict, w).
                           if alreadyRetriedConflict then 0 else 1)") auto

declare conflictRetry.simps [simp del]

definition NamespacedName :: "object \<Rightarrow> string \<times> string" where
  "NamespacedName obj = (Namespace (Meta obj), Name (Meta obj))"

record tracked =
  alreadyExistsErr :: "error option"
  daemonSets :: "(string \<times> string) list"
  deployments :: "(string \<times> string) list"
  statefulsets :: "(string \<times> string) list"
  cronJobs :: "(string \<times> string) list"

definition noneTracked :: tracked where
  "noneTracked =
     \<lparr>alreadyExistsErr = None, daemonSets = [], deployments = [], statefulsets = [], cronJobs = []\<rparr>"

definition trackObject :: "object \<Rightarrow> tracked \<Rightarrow> tracked" where
  "trackObject obj t =
     (let key = NamespacedName obj in
      case Payload obj of
        Deployment _ _ _ \<Rightarrow> t\<lparr>deployments := deployments t @ [key]\<rparr>
      | DaemonSet _ _ \<Rightarrow> t\<lparr>daemonSets := daemonSets t @ [key]\<rparr>
      | StatefulSet _ \<Rightarrow> t\<lparr>statefulsets := statefulsets t @ [key]\<rparr>
      | CronJob _ \<Rightarrow> t\<lparr>cronJobs := cronJobs t @ [key]\<rparr>
      | _ \<Rightarrow> t)"

text \<open>The first loop (lines 445-482); \<open>Inl\<close> is the early return of line 465.\<close>

fun createObjects ::
  "'c componentHandler \<Rightarrow> OSType \<Rightarrow> object list \<Rightarrow> tracked \<Rightarrow> 'c world \<Rightarrow> (error + tracked) \<times> 'c world" where
  "createObjects c osType [] t w = (Inr t, w)"
| "createObjects c osType (obj # objs) t w =
     (case conflictRetry c obj osType False w of
        (Failed err, w1) \<Rightarrow> (Inl err, w1)
      | (SawAlreadyExists err, w1) \<Rightarrow>
          createObjects c osType objs (trackObject obj (t\<lparr>alreadyExistsErr := Some err\<rparr>)) w1
      | (Done, w1) \<Rightarrow> createObjects c osType objs (trackObject obj t) w1)"

definition logStatus :: "statusCall \<Rightarrow> 'c world \<Rightarrow> 'c world" where
  "logStatus s w = w\<lparr>statusCalls := statusCalls w @ [s]\<rparr>"

text \<open>Lines 484-498; \<open>status\<close> tells whether a status manager was passed.\<close>

definition reportTracked :: "bool \<Rightarrow> tracked \<Rightarrow> 'c world \<Rightarrow> 'c world" where
  "reportTracked status t w =
     (if status then
        (let w1 = (if length (daemonSets t) > 0 then logStatus (AddDaemonsets (daemonSets t)) w else w);
             w2 = (if length (deployments t) > 0 then logStatus (AddDeployments (deployments t)) w1 else w1);
             w3 = (if length (statefulsets t) > 0 then logStatus (AddStatefulSets (statefulsets t)) w2 else w2)
         in if length (cronJobs t) > 0 then logStatus (AddCronJobs (cronJobs t)) w3 else w3)
      else w)"

definition reportRemoved :: "bool \<Rightarrow> object \<Rightarrow> 'c world \<Rightarrow> 'c world" where
  "reportRemoved status obj w =
     (let key = NamespacedName obj in
      if status then
        (case Payload obj of
           Deployment _ _ _ \<Rightarrow> logStatus (RemoveDeployments key) w
         | DaemonSet _ _ \<Rightarrow> logStatus (RemoveDaemonsets key) w
         | StatefulSet _ \<Rightarrow> logStatus (RemoveStatefulSets key) w
         | CronJob _ \<Rightarrow> logStatus (RemoveCronJobs key) w
         | _ \<Rightarrow> w)
      else w)"

text \<open>The second loop (lines 500-521).\<close>

fun deleteObjects ::
  "'c componentHandler \<Rightarrow> bool \<Rightarrow> object list \<Rightarrow> 'c world \<Rightarrow> error option \<times> 'c world" where
  "deleteObjects c status [] w = (None, w)"
| "deleteObjects c status (obj # objs) w =
     (case delete c obj w of
        (err, w1) \<Rightarrow>
          if (case err of None \<Rightarrow> False | Some e \<Rightarrow> \<not> IsNotFound e) then (err, w1)
          else deleteObjects c status objs (reportRemoved status obj w1))"

text \<open>\<^verbatim>\<open>CreateOrUpdateOrDelete\<close> (lines 422-532).\<close>

definition CreateOrUpdateOrDelete ::
  "'c componentHandler \<Rightarrow> component \<Rightarrow> bool \<Rightarrow> 'c world \<Rightarrow> error option \<times> 'c world" where
  "CreateOrUpdateOrDelete c cmp status w =
     (if \<not> Ready cmp then (None, w)
      else
        (case createObjects c (SupportedOSType cmp) (ObjectsToCreate cmp) noneTracked w of
           (Inl err, w1) \<Rightarrow> (Some err, w1)
         | (Inr t, w1) \<Rightarrow>
             (case deleteObjects c status (ObjectsToDelete cmp) (reportTracked status t w1) of
                (Some err, w2) \<Rightarrow> (Some err, w2)
              | (None, w2) \<Rightarrow>
                  (alreadyExistsErr t, if status then logStatus ReadyToMonitor w2 else w2))))"

section \<open>Reading the log of client calls\<close>

fun isCreate :: "call \<Rightarrow> bool" where
  "isCreate (CallCreate _) = True"
| "isCreate _ = False"

fun isUpdate :: "call \<Rightarrow> bool" where
  "isUpdate (CallUpdate _) = True"
| "isUpdate _ = False"

fun isDelete :: "call \<Rightarrow> bool" where
  "isDelete (CallDelete _) = True"
| "isDelete _ = False"

fun isGet :: "call \<Rightarrow> bool" where
  "isGet (CallGet _) = True"
| "isGet _ = False"

text \<open>The calls issued between an earlier world and a later one.\<close>

definition issued :: "'c world \<Rightarrow> 'c world \<Rightarrow> call list" where
  "issued w w' = drop (length (calls w)) (calls w')"

text \<open>The write calls among them: everything but the lookups.\<close>

definition writes :: "'c world \<Rightarrow> 'c world \<Rightarrow> call list" where
  "writes w w' = filter (\<lambda>x. isCreate x \<or> isUpdate x \<or> isDelete x) (issued w w')"

section \<open>Clients for concrete runs\<close>

text \<open>
  A cluster that is a finite map from identities to objects and changes through the
  client only. Creating an object assigns resource version, UID, creation time and
  generation 1; an update is rejected with a conflict unless it carries the stored
  resource version, and is stored as sent.
\<close>

type_synonym store = "(key, object) fmap"

definition storeGet :: "key \<Rightarrow> store \<Rightarrow> (error + object) \<times> store" where
  "storeGet k s = (case fmlookup s k of None \<Rightarrow> (Inl NotFound, s) | Some obj \<Rightarrow> (Inr obj, s))"

definition storeCreate :: "object \<Rightarrow> store \<Rightarrow> (error + object) \<times> store" where
  "storeCreate obj s =
     (let k = ObjectKeyFromObject obj in
      case fmlookup s k of
        Some _ \<Rightarrow> (Inl AlreadyExists, s)
      | None \<Rightarrow>
          (let stored = obj\<lparr>Meta := (Meta obj)\<lparr>ResourceVersion := ''1'', UID := ''uid'',
                                                CreationTimestamp := 1, Generation := 1\<rparr>\<rparr>
           in (Inr stored, fmupd k stored s)))"

definition storeUpdate :: "object \<Rightarrow> store \<Rightarrow> (error + object) \<times> store" where
  "storeUpdate obj s =
     (let k = ObjectKeyFromObject obj in
      case fmlookup s k of
        None \<Rightarrow> (Inl NotFound, s)
      | Some old \<Rightarrow>
          if ResourceVersion (Meta obj) = ResourceVersion (Meta old)
          then (Inr obj, fmupd k obj s)
          else (Inl Conflict, s))"

definition storeDelete :: "object \<Rightarrow> store \<Rightarrow> error option \<times> store" where
  "storeDelete obj s =
     (let k = ObjectKeyFromObject obj in
      case fmlookup s k of
        None \<Rightarrow> (Some NotFound, s)
      | Some _ \<Rightarrow> (None, fmdrop k s))"

definition storeClient :: "store client" where
  "storeClient =
     \<lparr>clGet = storeGet, clCreate = storeCreate, clUpdate = storeUpdate, clDelete = storeDelete\<rparr>"

text \<open>
  A client with scripted replies: the cluster state is the number of calls made so far,
  and each reply is a function of the call's argument and that number.
\<close>

definition scriptedClient ::
  "(key \<Rightarrow> nat \<Rightarrow> error + object) \<Rightarrow> (object \<Rightarrow> nat \<Rightarrow> error + object) \<Rightarrow>
   (object \<Rightarrow> nat \<Rightarrow> error + object) \<Rightarrow> (object \<Rightarrow> nat \<Rightarrow> error option) \<Rightarrow> nat client" where
  "scriptedClient onGet onCreate onUpdate onDelete =
     \<lparr>clGet = (\<lambda>k n. (onGet k n, Suc n)),
      clCreate = (\<lambda>obj n. (onCreate obj n, Suc n)),
      clUpdate = (\<lambda>obj n. (onUpdate obj n, Suc n)),
      clDelete = (\<lambda>obj n. (onDelete obj n, Suc n))\<rparr>"

text \<open>
  Owner references set without failure and left out of the metadata, no installation
  resource on the cluster, nothing ignored.
\<close>

definition plainExternals :: "'c externals" where
  "plainExternals =
     \<lparr>SetOwnerReference = (\<lambda>owner m. Inr m),
      SetControllerReference = (\<lambda>owner m. Inr m),
      GetInstallation = (\<lambda>cl. (Inl NotFound, cl)),
      IgnoreObject = (\<lambda>obj. False)\<rparr>"

definition handlerFor :: "'c client \<Rightarrow> 'c componentHandler" where
  "handlerFor cli = \<lparr>client = cli, cr = None, createOnly = False, ext = plainExternals\<rparr>"

definition freshWorld :: "'c \<Rightarrow> 'c world" where
  "freshWorld cl = \<lparr>cluster = cl, dCache = newCache, calls = [], statusCalls = []\<rparr>"

definition emptyMeta :: objectMeta where
  "emptyMeta =
     \<lparr>Name = [], Namespace = [], Generation = 0, ResourceVersion = [], UID = [],
      CreationTimestamp = 0, DeletionTimestamp = None, Labels = None, Annotations = None,
      OwnerReferences = [], Finalizers = []\<rparr>"

definition named :: "string \<Rightarrow> string \<Rightarrow> payload \<Rightarrow> object" where
  "named ns n p = \<lparr>Meta = emptyMeta\<lparr>Namespace := ns, Name := n\<rparr>, Payload = p\<rparr>"

section \<open>Example objects\<close>

definition exampleConfigMap :: object where
  "exampleConfigMap = named ''ns'' ''cm'' (OtherKind ''ConfigMap'' ''data'')"

definition exampleComponent :: "object list \<Rightarrow> component" where
  "exampleComponent objs =
     \<lparr>Ready = True, ObjectsToCreate = objs, ObjectsToDelete = [], SupportedOSType = OSTypeAny\<rparr>"

text \<open>A cluster on which the object exists and every update but the first succeeds.\<close>

definition conflictOnce :: "nat client" where
  "conflictOnce =
     scriptedClient (\<lambda>k n. Inr exampleConfigMap) (\<lambda>obj n. Inr obj)
       (\<lambda>obj n. if n = 1 then Inl Conflict else Inr obj) (\<lambda>obj n. None)"

text \<open>A cluster on which the object exists and every update is a conflict.\<close>

definition conflictAlways :: "nat client" where
  "conflictAlways =
     scriptedClient (\<lambda>k n. Inr exampleConfigMap) (\<lambda>obj n. Inr obj)
       (\<lambda>obj n. Inl Conflict) (\<lambda>obj n. None)"

definition submittedWithGeneration :: "int \<Rightarrow> object" where
  "submittedWithGeneration g = exampleConfigMap\<lparr>Meta := (Meta exampleConfigMap)\<lparr>Generation := g\<rparr>\<rparr>"

text \<open>A namespace that is being deleted, and a cluster holding nothing else.\<close>

definition terminatingNamespace :: object where
  "terminatingNamespace =
     \<lparr>Meta = emptyMeta\<lparr>Name := ''ns'', DeletionTimestamp := Some 7\<rparr>, Payload = NamespaceObj\<rparr>"

definition clusterWithTerminatingNamespace :: store where
  "clusterWithTerminatingNamespace = fmupd (KNamespace, [], ''ns'') terminatingNamespace fmempty"

text \<open>A cluster on which nothing is found and every namespace lookup times out.\<close>

definition namespaceLookupFails :: "nat client" where
  "namespaceLookupFails =
     scriptedClient (\<lambda>k n. if fst k = KNamespace then Inl (Other ''timeout'') else Inl NotFound)
       (\<lambda>obj n. Inr obj) (\<lambda>obj n. Inr obj) (\<lambda>obj n. None)"

text \<open>A handler for which an object carrying the annotation \<open>ignore\<close> is ignored.\<close>

definition ignoringAnnotated :: "'c componentHandler \<Rightarrow> 'c componentHandler" where
  "ignoringAnnotated c =
     c\<lparr>ext := (ext c)\<lparr>IgnoreObject := (\<lambda>obj. hasKey (Annotations (Meta obj)) ''ignore'')\<rparr>\<rparr>"

definition annotatedConfigMap :: object where
  "annotatedConfigMap =
     exampleConfigMap\<lparr>Meta := (Meta exampleConfigMap)
       \<lparr>Annotations := Some (fmupd ''ignore'' ''true'' fmempty), ResourceVersion := ''1''\<rparr>\<rparr>"

definition clusterWithAnnotated :: store where
  "clusterWithAnnotated = fmupd (ObjectKeyFromObject annotatedConfigMap) annotatedConfigMap fmempty"

text \<open>A one-container Job, desired and as the cluster holds it.\<close>

definition containerOf :: "string \<Rightarrow> container" where
  "containerOf img =
     \<lparr>ContainerName = ''main'', Image = img, ImagePullPolicy = ''IfNotPresent'',
      VolumeMounts = [], Env = [], LivenessProbe = None, ReadinessProbe = None\<rparr>"

definition exampleJob :: "string \<Rightarrow> object" where
  "exampleJob img =
     named ''ns'' ''job''
       (Job \<lparr>TemplateLabels = None, TemplateAnnotations = None,
             TemplateSpec = \<lparr>NodeSelector = None, Containers = [containerOf img], Volumes = []\<rparr>\<rparr>)"

definition onCluster :: "object \<Rightarrow> object" where
  "onCluster obj =
     obj\<lparr>Meta := (Meta obj)\<lparr>ResourceVersion := ''1'', UID := ''uid'', CreationTimestamp := 1,
                            Generation := 1\<rparr>\<rparr>"

definition clusterWith :: "object \<Rightarrow> store" where
  "clusterWith obj = fmupd (ObjectKeyFromObject obj) (onCluster obj) fmempty"

text \<open>A role binding, by the name of the role it refers to.\<close>

definition exampleRoleBinding :: "string \<Rightarrow> object" where
  "exampleRoleBinding role =
     \<lparr>Meta = emptyMeta\<lparr>Namespace := ''ns'', Name := ''rb'',
                        Labels := Some (fmupd ''app'' ''calico'' fmempty)\<rparr>,
      Payload = RoleBinding role ''subjects''\<rparr>"

text \<open>
  An Elasticsearch resource as rendered, and as the cluster holds it after its own
  controller wrote annotations, a finalizer and the status.
\<close>

definition exampleElasticsearch :: object where
  "exampleElasticsearch =
     named ''ns'' ''es'' (Elasticsearch \<lparr>NodeSets = [], EsOther = ''version 8''\<rparr> [])"

definition managedElasticsearch :: object where
  "managedElasticsearch =
     \<lparr>Meta = emptyMeta\<lparr>Namespace := ''ns'', Name := ''es'', Generation := 1, ResourceVersion := ''7'',
                        UID := ''uid'', CreationTimestamp := 1,
                        Annotations := Some (fmupd ''eck/managed'' ''true'' fmempty),
                        Finalizers := [''eck/finalizer'']\<rparr>,
      Payload = Elasticsearch \<lparr>NodeSets = [], EsOther = ''version 8''\<rparr> ''green''\<rparr>"

definition clusterWithElasticsearch :: store where
  "clusterWithElasticsearch =
     fmupd (ObjectKeyFromObject managedElasticsearch) managedElasticsearch fmempty"


text \<open>
  A Job about to be recreated: merged with a live Job of generation 3, its metadata reset
  for the create.
\<close>

definition jobToRecreate :: object where
  "jobToRecreate =
     (case mergeState (exampleJob ''v2'')
             ((onCluster (exampleJob ''v1''))
                \<lparr>Meta := (Meta (onCluster (exampleJob ''v1'')))\<lparr>Generation := 3\<rparr>\<rparr>) of
        Some mobj \<Rightarrow> resetMetadataForCreate mobj
      | None \<Rightarrow> exampleJob ''v2'')"

text \<open>An object on the cluster that carries the annotation \<open>ignore\<close>.\<close>

definition ignoredOnCluster :: "object \<Rightarrow> object" where
  "ignoredOnCluster obj =
     (onCluster obj)\<lparr>Meta := (Meta (onCluster obj))
       \<lparr>Annotations := Some (fmupd ''ignore'' ''true'' fmempty)\<rparr>\<rparr>"

definition clusterWithIgnored :: "object \<Rightarrow> store" where
  "clusterWithIgnored obj = fmupd (ObjectKeyFromObject obj) (ignoredOnCluster obj) fmempty"

section \<open>Describing a run of the first loop\<close>




section \<open>Auxiliary facts\<close>

lemma IsConflict_not_AlreadyExists: "IsConflict e \<Longrightarrow> \<not> IsAlreadyExists e"
  by (induction e) auto

lemma cli_get_log:
  "cli_get c k w = (r, w') \<Longrightarrow>
     calls w' = calls w @ [CallGet k] \<and> dCache w' = dCache w \<and> statusCalls w' = statusCalls w"
  by (auto simp: cli_get_def split: prod.splits)

lemma cli_create_log:
  "cli_create c obj w = (r, w') \<Longrightarrow>
     calls w' = calls w @ [CallCreate obj] \<and> dCache w' = dCache w \<and> statusCalls w' = statusCalls w"
  by (auto simp: cli_create_def split: prod.splits)

lemma cli_update_log:
  "cli_update c obj w = (r, w') \<Longrightarrow>
     calls w' = calls w @ [CallUpdate obj] \<and> dCache w' = dCache w \<and> statusCalls w' = statusCalls w"
  by (auto simp: cli_update_def split: prod.splits)

lemma cli_delete_log:
  "cli_delete c obj w = (r, w') \<Longrightarrow>
     calls w' = calls w @ [CallDelete obj] \<and> dCache w' = dCache w \<and> statusCalls w' = statusCalls w"
  by (auto simp: cli_delete_def split: prod.splits)

lemma withInstallationCiphers_log:
  "withInstallationCiphers c inject obj w = (r, w') \<Longrightarrow> calls w' = calls w \<and> dCache w' = dCache w"
  by (auto simp: withInstallationCiphers_def split: prod.splits sum.splits if_splits)

lemma ensureTLSCiphers_log:
  "ensureTLSCiphers c obj w = (r, w') \<Longrightarrow> calls w' = calls w \<and> dCache w' = dCache w"
  by (auto simp: ensureTLSCiphers_def split: payload.splits dest: withInstallationCiphers_log)

lemma mutateObject_log:
  "mutateObject c obj os w = (r, w') \<Longrightarrow> calls w' = calls w \<and> dCache w' = dCache w"
  by (auto simp: mutateObject_def Let_def split: prod.splits sum.splits dest: ensureTLSCiphers_log)

lemma needsUpdate_after_set:
  "Generation (Meta obj) \<le> g \<Longrightarrow> \<not> needsUpdate (cache_set dc obj g) obj"
  by (simp add: needsUpdate_def cache_get_def cache_set_def)

lemma needsUpdate_newer:
  "ObjectKeyFromObject obj2 = ObjectKeyFromObject obj \<Longrightarrow> g < Generation (Meta obj2) \<Longrightarrow>
     needsUpdate (cache_set dc obj g) obj2"
  by (simp add: needsUpdate_def cache_get_def cache_set_def)

lemma conflictRetry_True:
  "conflictRetry c obj os True w =
     (case createOrUpdateObject c obj os w of
        (None, w1) \<Rightarrow> (Done, w1)
      | (Some err, w1) \<Rightarrow>
          if IsAlreadyExists err then (SawAlreadyExists err, w1) else (Failed err, w1))"
  by (subst conflictRetry.simps) (simp split: prod.splits option.splits)

lemma conflictRetry_False:
  "conflictRetry c obj os False w =
     (case createOrUpdateObject c obj os w of
        (None, w1) \<Rightarrow> (Done, w1)
      | (Some err, w1) \<Rightarrow>
          if IsAlreadyExists err then (SawAlreadyExists err, w1)
          else if IsConflict err then conflictRetry c obj os True w1
          else (Failed err, w1))"
  by (subst conflictRetry.simps) (simp split: prod.splits option.splits)

lemma createObjects_append:
  "createObjects c os (xs @ ys) t w =
     (case createObjects c os xs t w of
        (Inl err, w1) \<Rightarrow> (Inl err, w1)
      | (Inr t1, w1) \<Rightarrow> createObjects c os ys t1 w1)"
  by (induction xs arbitrary: t w) (auto split: prod.splits outcome.splits sum.splits)

lemma issued_append: "calls w' = calls w @ xs \<Longrightarrow> issued w w' = xs"
  by (simp add: issued_def)

lemma createOrUpdateObject_missing:
  assumes "addOwnerReference c (checkIfMultipleOwnersLabel (Meta obj0)) obj0 = Inr obj1"
      and "mutateObject c obj1 os w = (Inr obj, w1)"
      and "cli_get c (ObjectKeyFromObject obj1) w1 = (Inl err, w2)"
  shows "createOrUpdateObject c obj0 os w =
           createMissing c (checkIfMultipleOwnersLabel (Meta obj0)) obj err w2"
  using assms by (simp add: createOrUpdateObject_def)

lemma createOrUpdateObject_found:
  assumes "addOwnerReference c (checkIfMultipleOwnersLabel (Meta obj0)) obj0 = Inr obj1"
      and "mutateObject c obj1 os w = (Inr obj, w1)"
      and "cli_get c (ObjectKeyFromObject obj1) w1 = (Inr cur, w2)"
  shows "createOrUpdateObject c obj0 os w = updateExisting c obj cur w2"
  using assms by (simp add: createOrUpdateObject_def)

lemma lookup_calls:
  assumes "mutateObject c obj1 os w = (r, w1)"
      and "cli_get c k w1 = (r', w2)"
  shows "calls w2 = calls w @ [CallGet k]" and "dCache w2 = dCache w"
  using assms mutateObject_log cli_get_log by metis+

lemma imagesDiffer_iff:
  "length cs = length ds \<Longrightarrow> imagesDiffer cs ds \<longleftrightarrow> map Image cs \<noteq> map Image ds"
  by (induction cs ds rule: list_induct2) auto

lemma create_log:
  "create c obj w = (r, w') \<Longrightarrow> calls w' = calls w @ [CallCreate obj]"
  by (auto simp: create_def Let_def split: prod.splits sum.splits dest: cli_create_log)

lemma update_log:
  "update c obj w = (r, w') \<Longrightarrow> calls w' = calls w \<or> calls w' = calls w @ [CallUpdate obj]"
  by (auto simp: update_def Let_def split: prod.splits sum.splits if_splits dest: cli_update_log)

lemma delete_log:
  assumes "delete c obj w = (r, w')"
  shows "\<exists>xs. calls w' = calls w @ xs \<and> list_all (\<lambda>x. isGet x \<or> isDelete x) xs \<and>
              (r \<noteq> None \<longrightarrow> list_ex isDelete xs)"
proof -
  obtain g wa where g: "cli_get c (ObjectKeyFromObject obj) w = (g, wa)"
    by (cases "cli_get c (ObjectKeyFromObject obj) w")
  then have ga: "calls wa = calls w @ [CallGet (ObjectKeyFromObject obj)]"
    using cli_get_log by blast
  show ?thesis
  proof (cases "case g of Inl err \<Rightarrow> IsNotFound err | Inr _ \<Rightarrow> False")
    case True
    then have "r = None" "calls w' = calls wa"
      using assms g by (auto simp: delete_def Let_def)
    then show ?thesis using ga by simp
  next
    case False
    define target where "target = (case g of Inl _ \<Rightarrow> obj | Inr fetched \<Rightarrow> fetched)"
    obtain d wb where d: "cli_delete c target wa = (d, wb)"
      by (cases "cli_delete c target wa")
    then have "calls wb = calls wa @ [CallDelete target]"
      using cli_delete_log by blast
    moreover have "calls w' = calls wb"
      using assms g d False
      by (auto simp: delete_def Let_def target_def split: option.splits if_splits)
    ultimately show ?thesis using ga by simp
  qed
qed

lemma recreate_log:
  assumes "recreate c obj mobj w = (r, w')"
  shows "\<exists>xs. calls w' = calls w @ xs \<and> list_all (\<lambda>x. \<not> isUpdate x) xs \<and>
              list_ex (\<lambda>x. isCreate x \<or> isDelete x) xs"
proof -
  obtain d wa where d: "delete c obj w = (d, wa)"
    by (cases "delete c obj w")
  from delete_log [OF this] obtain xs where
    xs: "calls wa = calls w @ xs" "list_all (\<lambda>x. isGet x \<or> isDelete x) xs"
        "d \<noteq> None \<longrightarrow> list_ex isDelete xs"
    by blast
  have noupd: "list_all (\<lambda>x. \<not> isUpdate x) xs"
    using xs(2) by (induction xs) (auto elim: isGet.elims isDelete.elims)
  show ?thesis
  proof (cases d)
    case None
    then have "create c (resetMetadataForCreate mobj) wa = (r, w')"
      using assms d by (simp add: recreate_def)
    then have "calls w' = calls wa @ [CallCreate (resetMetadataForCreate mobj)]"
      by (rule create_log)
    then show ?thesis using xs(1) noupd by simp
  next
    case (Some err)
    then have "w' = wa"
      using assms d by (simp add: recreate_def)
    moreover have "list_ex (\<lambda>x. isCreate x \<or> isDelete x) xs"
      using xs(3) Some by (auto simp: list_ex_iff)
    ultimately show ?thesis using xs(1) noupd by blast
  qed
qed

lemma issued_facts:
  assumes "calls w' = calls w @ xs"
  shows "issued w w' = xs"
    and "writes w w' = filter (\<lambda>x. isCreate x \<or> isUpdate x \<or> isDelete x) xs"
  using assms by (simp_all add: issued_def writes_def)

lemma mergeState_Job:
  assumes "Payload obj = Job dj" "Payload cur = Job cj"
  shows "mergeState obj cur =
           (if length (Containers (TemplateSpec cj)) = length (Containers (TemplateSpec dj)) \<and>
               map Image (Containers (TemplateSpec cj)) = map Image (Containers (TemplateSpec dj)) \<and>
               TemplateAnnotations cj = TemplateAnnotations dj
            then None
            else Some (obj\<lparr>Meta := mergeMeta (Meta obj) (Meta cur)\<rparr>))"
  using assms by (auto simp: mergeState_def Let_def imagesDiffer_iff)

lemma mergeMeta_fields:
  "Annotations (mergeMeta d cm) =
     Some (MergeMaps (MapExistsOrInitialize (Annotations cm)) (MapExistsOrInitialize (Annotations d)))"
  "Labels (mergeMeta d cm) =
     (let merged = MergeMaps (MapExistsOrInitialize (Labels cm)) (MapExistsOrInitialize (Labels d))
      in Some (if fmlookup merged MultipleOwnersLabel \<noteq> None
               then fmdrop MultipleOwnersLabel merged else merged))"
  "Generation (mergeMeta d cm) = Generation cm"
  by (auto simp: mergeMeta_def Let_def checkIfMultipleOwnersLabel_def hasKey_def)

lemma mergeState_default:
  assumes "(Payload obj = RoleBinding ref other \<and> Payload cur = RoleBinding curRef curOther) \<or>
           (Payload obj = ClusterRoleBinding ref other \<and> Payload cur = ClusterRoleBinding curRef curOther)"
  shows "mergeState obj cur = Some (obj\<lparr>Meta := mergeMeta (Meta obj) (Meta cur)\<rparr>)"
    and "needsRecreate obj cur \<longleftrightarrow> ref \<noteq> curRef"
  using assms by (auto simp: mergeState_def needsRecreate_def Let_def)

lemma mergeState_status_managed:
  "Payload obj = Elasticsearch dSpec dStatus \<Longrightarrow> Payload cur = Elasticsearch cSpec cStatus \<Longrightarrow>
     mergeState obj cur =
       (if cSpec = dSpec then Some cur
        else Some \<lparr>Meta = (mergeMeta (Meta obj) (Meta cur))
                            \<lparr>Annotations := Annotations (Meta cur), Finalizers := Finalizers (Meta cur)\<rparr>,
                   Payload = Elasticsearch dSpec cStatus\<rparr>)"
  "Payload obj = Kibana kdSpec kdStatus \<Longrightarrow> Payload cur = Kibana kcSpec kcStatus \<Longrightarrow>
     mergeState obj cur =
       (if kcSpec = kdSpec then Some cur
        else Some \<lparr>Meta = (mergeMeta (Meta obj) (Meta cur))
                            \<lparr>Annotations := Annotations (Meta cur), Finalizers := Finalizers (Meta cur)\<rparr>,
                   Payload = Kibana (kdSpec\<lparr>ElasticsearchRef := ElasticsearchRef kcSpec\<rparr>) kcStatus\<rparr>)"
  by (simp_all add: mergeState_def Let_def)






lemma status_calls [simp]:
  "calls (logStatus s w) = calls w"
  "calls (reportTracked status t w) = calls w"
  "calls (reportRemoved status obj w) = calls w"
  by (auto simp: logStatus_def reportTracked_def reportRemoved_def Let_def split: payload.splits)


lemma trackObject_alreadyExistsErr [simp]:
  "alreadyExistsErr (trackObject obj t) = alreadyExistsErr t"
  by (simp add: trackObject_def Let_def split: payload.splits)





lemma delete_found:
  assumes "cli_get c (ObjectKeyFromObject obj) w = (Inr fetched, wa)"
      and "cli_delete c fetched wa = (d, wb)"
  shows "\<exists>w'. delete c obj w = (d, w') \<and>
              calls w' = calls w @ [CallGet (ObjectKeyFromObject obj), CallDelete fetched]"
proof -
  have "calls wa = calls w @ [CallGet (ObjectKeyFromObject obj)]"
    using assms(1) cli_get_log by blast
  moreover have "calls wb = calls wa @ [CallDelete fetched]"
    using assms(2) cli_delete_log by blast
  ultimately have "calls wb = calls w @ [CallGet (ObjectKeyFromObject obj), CallDelete fetched]"
    by simp
  then show ?thesis
    using assms by (cases d) (auto simp: delete_def Let_def)
qed

section \<open>The cache decision rule\<close>

text \<open>
  C1. \<^verbatim>\<open>needsUpdate\<close> answers true when the cache has no entry for the object's identity;
  with an entry, it answers true when the object's generation is newer than the cached
  one; otherwise false when the object equals the cached snapshot, and true when it
  differs.
\<close>

theorem needsUpdate_decision_rule:
  "(cache_get dc obj = None \<longrightarrow> needsUpdate dc obj) \<and>
   (\<forall>cachedObj cachedGen. cache_get dc obj = Some (cachedObj, cachedGen) \<longrightarrow>
      (cachedGen < Generation (Meta obj) \<longrightarrow> needsUpdate dc obj) \<and>
      (\<not> cachedGen < Generation (Meta obj) \<and> cachedObj = obj \<longrightarrow> \<not> needsUpdate dc obj) \<and>
      (\<not> cachedGen < Generation (Meta obj) \<and> cachedObj \<noteq> obj \<longrightarrow> needsUpdate dc obj))"
  by (simp add: needsUpdate_def)

text \<open>The four branches on a cache holding one entry, and on the empty cache.\<close>

theorem needsUpdate_decision_rule_witness:
  "needsUpdate newCache exampleConfigMap \<and>
   \<not> needsUpdate (cache_set newCache exampleConfigMap 1) exampleConfigMap \<and>
   needsUpdate (cache_set newCache exampleConfigMap 1)
     (exampleConfigMap\<lparr>Meta := (Meta exampleConfigMap)\<lparr>Generation := 2\<rparr>\<rparr>) \<and>
   needsUpdate (cache_set newCache exampleConfigMap 1)
     (exampleConfigMap\<lparr>Payload := OtherKind ''ConfigMap'' ''changed''\<rparr>)"
proof -
  let ?dc = "cache_set newCache exampleConfigMap 1"
  let ?newer = "exampleConfigMap\<lparr>Meta := (Meta exampleConfigMap)\<lparr>Generation := 2\<rparr>\<rparr>"
  let ?changed = "exampleConfigMap\<lparr>Payload := OtherKind ''ConfigMap'' ''changed''\<rparr>"
  have miss: "cache_get newCache exampleConfigMap = None"
    by (simp add: cache_get_def newCache_def)
  have hit: "cache_get ?dc exampleConfigMap = Some (exampleConfigMap, 1)"
    by (simp add: cache_get_def cache_set_def)
  have hit_newer: "cache_get ?dc ?newer = Some (exampleConfigMap, 1)"
    by (simp add: cache_get_def cache_set_def ObjectKeyFromObject_def)
  have hit_changed: "cache_get ?dc ?changed = Some (exampleConfigMap, 1)"
    by (simp add: cache_get_def cache_set_def ObjectKeyFromObject_def exampleConfigMap_def named_def)
  have gen0: "Generation (Meta exampleConfigMap) = 0"
    by (simp add: exampleConfigMap_def named_def emptyMeta_def)
  have differs: "exampleConfigMap \<noteq> ?changed"
    by (simp add: exampleConfigMap_def named_def)
  have "needsUpdate newCache exampleConfigMap"
    using needsUpdate_decision_rule [of newCache exampleConfigMap] miss by blast
  moreover have "\<not> needsUpdate ?dc exampleConfigMap"
    using needsUpdate_decision_rule [of ?dc exampleConfigMap] hit gen0 by simp
  moreover have "needsUpdate ?dc ?newer"
    using needsUpdate_decision_rule [of ?dc ?newer] hit_newer by simp
  moreover have "needsUpdate ?dc ?changed"
    using needsUpdate_decision_rule [of ?dc ?changed] hit_changed gen0 differs by simp
  ultimately show ?thesis by blast
qed

section \<open>Two calls in a row\<close>

text \<open>
  C2, at a failing input. One desired object, an empty cluster that changes through the
  client only, and the same component passed twice. The first call creates the object
  and caches the copy taken before the create. In the second call the merged object
  carries the resource version, UID, creation time and generation read from the cluster
  and initialised label and annotation maps, so it differs from the cached copy and an
  update call is issued.
\<close>

theorem second_call_after_create_updates:
  "fst (CreateOrUpdateOrDelete (handlerFor storeClient) (exampleComponent [exampleConfigMap]) False
          (freshWorld fmempty)) = None \<and>
   writes (freshWorld fmempty)
     (snd (CreateOrUpdateOrDelete (handlerFor storeClient) (exampleComponent [exampleConfigMap]) False
             (freshWorld fmempty))) = [CallCreate exampleConfigMap] \<and>
   fst (CreateOrUpdateOrDelete (handlerFor storeClient) (exampleComponent [exampleConfigMap]) False
          (snd (CreateOrUpdateOrDelete (handlerFor storeClient) (exampleComponent [exampleConfigMap]) False
                  (freshWorld fmempty)))) = None \<and>
   writes
     (snd (CreateOrUpdateOrDelete (handlerFor storeClient) (exampleComponent [exampleConfigMap]) False
             (freshWorld fmempty)))
     (snd (CreateOrUpdateOrDelete (handlerFor storeClient) (exampleComponent [exampleConfigMap]) False
             (snd (CreateOrUpdateOrDelete (handlerFor storeClient) (exampleComponent [exampleConfigMap]) False
                     (freshWorld fmempty))))) =
     [CallUpdate ((onCluster exampleConfigMap)
        \<lparr>Meta := (Meta (onCluster exampleConfigMap))\<lparr>Labels := Some fmempty, Annotations := Some fmempty\<rparr>\<rparr>)]"
  by code_simp

section \<open>The cache at the write boundary\<close>

text \<open>
  C3, as the claim states it, fails. A Job is recreated from the merged object, which
  carries the generation 3 of the live Job it replaces; the cluster numbers the new
  object's generation from 1. The create succeeds, the cache keeps the submitted copy
  with the generation the server reported, and \<^verbatim>\<open>needsUpdate\<close> answers true for
  exactly that object, because its own generation is newer than the cached one.
\<close>

theorem needsUpdate_after_create_counterexample:
  "Generation (Meta jobToRecreate) = 3 \<and>
   fst (create (handlerFor storeClient) jobToRecreate (freshWorld fmempty)) = None \<and>
   needsUpdate (dCache (snd (create (handlerFor storeClient) jobToRecreate (freshWorld fmempty))))
     jobToRecreate"
  by code_simp

text \<open>
  C3, amended. After a successful create or update of an object, \<^verbatim>\<open>needsUpdate\<close>
  answers false for that exact object provided the generation the server reports for
  the written object is not lower than the one the object was submitted with; and,
  whatever generation the server reported, it answers true for any object of the same
  identity whose generation is greater than the generation cached at the write.
\<close>

theorem needsUpdate_after_write:
  "(cli_create c obj w = (Inr obj', w1) \<longrightarrow>
      fst (create c obj w) = None \<and>
      (Generation (Meta obj) \<le> Generation (Meta obj') \<longrightarrow>
         \<not> needsUpdate (dCache (snd (create c obj w))) obj) \<and>
      (\<forall>live. ObjectKeyFromObject live = ObjectKeyFromObject obj \<and>
               Generation (Meta obj') < Generation (Meta live) \<longrightarrow>
               needsUpdate (dCache (snd (create c obj w))) live)) \<and>
   (needsUpdate (dCache w) obj \<and> cli_update c obj w = (Inr obj', w1) \<longrightarrow>
      fst (update c obj w) = None \<and>
      (Generation (Meta obj) \<le> Generation (Meta obj') \<longrightarrow>
         \<not> needsUpdate (dCache (snd (update c obj w))) obj) \<and>
      (\<forall>live. ObjectKeyFromObject live = ObjectKeyFromObject obj \<and>
               Generation (Meta obj') < Generation (Meta live) \<longrightarrow>
               needsUpdate (dCache (snd (update c obj w))) live))"
  by (simp add: create_def update_def needsUpdate_after_set needsUpdate_newer)

text \<open>
  A create on the store-backed cluster, an update on a scripted one, and the recreated
  Job, for which the server reported a lower generation than it was submitted with.
\<close>

theorem needsUpdate_after_write_witness:
  "fst (create (handlerFor storeClient) exampleConfigMap (freshWorld fmempty)) = None \<and>
   \<not> needsUpdate (dCache (snd (create (handlerFor storeClient) exampleConfigMap (freshWorld fmempty))))
       exampleConfigMap \<and>
   needsUpdate (dCache (snd (create (handlerFor storeClient) exampleConfigMap (freshWorld fmempty))))
       (submittedWithGeneration 2) \<and>
   fst (update (handlerFor conflictOnce) exampleConfigMap (freshWorld 0)) = None \<and>
   \<not> needsUpdate (dCache (snd (update (handlerFor conflictOnce) exampleConfigMap (freshWorld 0))))
       exampleConfigMap \<and>
   needsUpdate (dCache (snd (update (handlerFor conflictOnce) exampleConfigMap (freshWorld 0))))
       (submittedWithGeneration 1) \<and>
   needsUpdate (dCache (snd (create (handlerFor storeClient) jobToRecreate (freshWorld fmempty))))
       (jobToRecreate\<lparr>Meta := (Meta jobToRecreate)\<lparr>Generation := 2\<rparr>\<rparr>)"
proof -
  let ?h = "handlerFor storeClient" and ?w = "freshWorld (fmempty :: store)"
  let ?stored = "submittedWithGeneration 0\<lparr>Meta := (Meta (submittedWithGeneration 0))
                   \<lparr>ResourceVersion := ''1'', UID := ''uid'', CreationTimestamp := 1, Generation := 1\<rparr>\<rparr>"
  have "fst (cli_create ?h exampleConfigMap ?w) = Inr ?stored"
    by code_simp
  then have created: "cli_create ?h exampleConfigMap ?w = (Inr ?stored, snd (cli_create ?h exampleConfigMap ?w))"
    by (simp add: prod_eq_iff)
  have gens: "Generation (Meta exampleConfigMap) \<le> Generation (Meta ?stored)"
    by code_simp
  have key2: "ObjectKeyFromObject (submittedWithGeneration 2) = ObjectKeyFromObject exampleConfigMap"
    by code_simp
  have newer2: "Generation (Meta ?stored) < Generation (Meta (submittedWithGeneration 2))"
    by code_simp
  let ?h' = "handlerFor conflictOnce" and ?w' = "freshWorld (0 :: nat)"
  have needed: "needsUpdate (dCache ?w') exampleConfigMap"
    by code_simp
  have "fst (cli_update ?h' exampleConfigMap ?w') = Inr exampleConfigMap"
    by code_simp
  then have updated: "cli_update ?h' exampleConfigMap ?w' = (Inr exampleConfigMap, snd (cli_update ?h' exampleConfigMap ?w'))"
    by (simp add: prod_eq_iff)
  have key1: "ObjectKeyFromObject (submittedWithGeneration 1) = ObjectKeyFromObject exampleConfigMap"
    by code_simp
  have newer1: "Generation (Meta exampleConfigMap) < Generation (Meta (submittedWithGeneration 1))"
    by code_simp
  let ?job = jobToRecreate
  let ?drifted = "jobToRecreate\<lparr>Meta := (Meta jobToRecreate)\<lparr>Generation := 2\<rparr>\<rparr>"
  let ?reply = "jobToRecreate\<lparr>Meta := (Meta jobToRecreate)
                  \<lparr>ResourceVersion := ''1'', UID := ''uid'', CreationTimestamp := 1, Generation := 1\<rparr>\<rparr>"
  have "fst (cli_create ?h ?job ?w) = Inr ?reply"
    by code_simp
  then have recreated: "cli_create ?h ?job ?w = (Inr ?reply, snd (cli_create ?h ?job ?w))"
    by (simp add: prod_eq_iff)
  have keyj: "ObjectKeyFromObject ?drifted = ObjectKeyFromObject ?job"
    by code_simp
  have newerj: "Generation (Meta ?reply) < Generation (Meta ?drifted)"
    by code_simp
  have drift: "needsUpdate (dCache (snd (create ?h ?job ?w))) ?drifted"
    using needsUpdate_after_write [of ?h ?job ?w ?reply "snd (cli_create ?h ?job ?w)"]
          recreated keyj newerj
    by blast
  have written:
    "fst (create ?h exampleConfigMap ?w) = None \<and>
     \<not> needsUpdate (dCache (snd (create ?h exampleConfigMap ?w))) exampleConfigMap \<and>
     needsUpdate (dCache (snd (create ?h exampleConfigMap ?w))) (submittedWithGeneration 2) \<and>
     fst (update ?h' exampleConfigMap ?w') = None \<and>
     \<not> needsUpdate (dCache (snd (update ?h' exampleConfigMap ?w'))) exampleConfigMap \<and>
     needsUpdate (dCache (snd (update ?h' exampleConfigMap ?w'))) (submittedWithGeneration 1)"
    using needsUpdate_after_write [of ?h exampleConfigMap ?w ?stored "snd (cli_create ?h exampleConfigMap ?w)"]
          needsUpdate_after_write [of ?h' exampleConfigMap ?w' exampleConfigMap "snd (cli_update ?h' exampleConfigMap ?w')"]
          created gens key2 newer2 needed updated key1 newer1
    by blast
  show ?thesis
    using written drift by blast
qed

section \<open>Retrying a conflict\<close>

text \<open>
  C4. When the attempt on a desired object fails with a conflict, the object is attempted
  once more and the outcome of that second attempt is final: the world after the loop
  body is the world after exactly two attempts. A second conflict is returned by
  \<^verbatim>\<open>CreateOrUpdateOrDelete\<close> as its error, in the world the second attempt left, so
  there is no third attempt and no later object is processed.
\<close>

theorem conflict_retried_exactly_once:
  assumes first: "createOrUpdateObject c obj os w = (Some e1, w1)"
      and conflict: "IsConflict e1"
      and second: "createOrUpdateObject c obj os w1 = (r2, w2)"
  shows "conflictRetry c obj os False w =
           ((case r2 of
               None \<Rightarrow> Done
             | Some e2 \<Rightarrow> if IsAlreadyExists e2 then SawAlreadyExists e2 else Failed e2), w2) \<and>
         (\<forall>e2. r2 = Some e2 \<and> IsConflict e2 \<longrightarrow>
            conflictRetry c obj os False w = (Failed e2, w2) \<and>
            (\<forall>cmp status before rest t0 w0.
               Ready cmp \<and> SupportedOSType cmp = os \<and> ObjectsToCreate cmp = before @ obj # rest \<and>
               createObjects c os before noneTracked w0 = (Inr t0, w) \<longrightarrow>
               CreateOrUpdateOrDelete c cmp status w0 = (Some e2, w2)))"
proof -
  have retry: "conflictRetry c obj os False w = conflictRetry c obj os True w1"
    using first conflict by (simp add: conflictRetry_False IsConflict_not_AlreadyExists)
  have once: "conflictRetry c obj os True w1 =
           ((case r2 of
               None \<Rightarrow> Done
             | Some e2 \<Rightarrow> if IsAlreadyExists e2 then SawAlreadyExists e2 else Failed e2), w2)"
    using second by (simp add: conflictRetry_True split: option.splits)
  have twice: "conflictRetry c obj os False w = (Failed e2, w2)"
    if "r2 = Some e2" "IsConflict e2" for e2
    using retry once that by (simp add: IsConflict_not_AlreadyExists)
  have abort: "CreateOrUpdateOrDelete c cmp status w0 = (Some e2, w2)"
    if "r2 = Some e2" "IsConflict e2" "Ready cmp" "SupportedOSType cmp = os"
       "ObjectsToCreate cmp = before @ obj # rest"
       "createObjects c os before noneTracked w0 = (Inr t0, w)"
    for e2 cmp status before rest t0 w0
    using twice [OF that(1,2)] that(3-6)
    by (simp add: CreateOrUpdateOrDelete_def createObjects_append)
  show ?thesis
  proof (intro conjI allI impI)
    show "conflictRetry c obj os False w =
           ((case r2 of
               None \<Rightarrow> Done
             | Some e2 \<Rightarrow> if IsAlreadyExists e2 then SawAlreadyExists e2 else Failed e2), w2)"
      using retry once by simp
  next
    fix e2
    assume "r2 = Some e2 \<and> IsConflict e2"
    then show "conflictRetry c obj os False w = (Failed e2, w2)"
      using twice by blast
  next
    fix e2 and cmp :: component and status before rest t0 w0
    assume "r2 = Some e2 \<and> IsConflict e2"
       and "Ready cmp \<and> SupportedOSType cmp = os \<and> ObjectsToCreate cmp = before @ obj # rest \<and>
            createObjects c os before noneTracked w0 = (Inr t0, w)"
    then show "CreateOrUpdateOrDelete c cmp status w0 = (Some e2, w2)"
      using abort by blast
  qed
qed

text \<open>
  One conflict followed by success, and two conflicts in a row: two update calls each
  time.
\<close>

theorem conflict_retried_exactly_once_witness:
  "fst (conflictRetry (handlerFor conflictOnce) exampleConfigMap OSTypeAny False (freshWorld 0)) = Done \<and>
   length (filter isUpdate
     (calls (snd (conflictRetry (handlerFor conflictOnce) exampleConfigMap OSTypeAny False (freshWorld 0))))) = 2 \<and>
   CreateOrUpdateOrDelete (handlerFor conflictAlways) (exampleComponent [exampleConfigMap]) False (freshWorld 0) =
     (Some Conflict,
      snd (createOrUpdateObject (handlerFor conflictAlways) exampleConfigMap OSTypeAny
             (snd (createOrUpdateObject (handlerFor conflictAlways) exampleConfigMap OSTypeAny (freshWorld 0))))) \<and>
   length (filter isUpdate
     (calls (snd (CreateOrUpdateOrDelete (handlerFor conflictAlways) (exampleComponent [exampleConfigMap])
                    False (freshWorld 0))))) = 2"
proof -
  let ?h = "handlerFor conflictOnce" and ?k = "handlerFor conflictAlways"
  let ?w = "freshWorld (0 :: nat)" and ?obj = exampleConfigMap
  let ?w1 = "snd (createOrUpdateObject ?h ?obj OSTypeAny ?w)"
  let ?w2 = "snd (createOrUpdateObject ?h ?obj OSTypeAny ?w1)"
  let ?v1 = "snd (createOrUpdateObject ?k ?obj OSTypeAny ?w)"
  let ?v2 = "snd (createOrUpdateObject ?k ?obj OSTypeAny ?v1)"
  have "fst (createOrUpdateObject ?h ?obj OSTypeAny ?w) = Some Conflict" by code_simp
  then have h1: "createOrUpdateObject ?h ?obj OSTypeAny ?w = (Some Conflict, ?w1)"
    by (simp add: prod_eq_iff)
  have "fst (createOrUpdateObject ?h ?obj OSTypeAny ?w1) = None" by code_simp
  then have h2: "createOrUpdateObject ?h ?obj OSTypeAny ?w1 = (None, ?w2)"
    by (simp add: prod_eq_iff)
  have once: "conflictRetry ?h ?obj OSTypeAny False ?w = (Done, ?w2)"
    using conflict_retried_exactly_once [OF h1 _ h2] by simp
  have updates1: "length (filter isUpdate (calls ?w2)) = 2" by code_simp
  have "fst (createOrUpdateObject ?k ?obj OSTypeAny ?w) = Some Conflict" by code_simp
  then have k1: "createOrUpdateObject ?k ?obj OSTypeAny ?w = (Some Conflict, ?v1)"
    by (simp add: prod_eq_iff)
  have "fst (createOrUpdateObject ?k ?obj OSTypeAny ?v1) = Some Conflict" by code_simp
  then have k2: "createOrUpdateObject ?k ?obj OSTypeAny ?v1 = (Some Conflict, ?v2)"
    by (simp add: prod_eq_iff)
  have cmp: "Ready (exampleComponent [?obj]) \<and> SupportedOSType (exampleComponent [?obj]) = OSTypeAny \<and>
             ObjectsToCreate (exampleComponent [?obj]) = [] @ ?obj # [] \<and>
             createObjects ?k OSTypeAny [] noneTracked ?w = (Inr noneTracked, ?w)"
    by (simp add: exampleComponent_def)
  have "\<forall>cmp status before rest t0 w0.
          Ready cmp \<and> SupportedOSType cmp = OSTypeAny \<and> ObjectsToCreate cmp = before @ ?obj # rest \<and>
          createObjects ?k OSTypeAny before noneTracked w0 = (Inr t0, ?w) \<longrightarrow>
          CreateOrUpdateOrDelete ?k cmp status w0 = (Some Conflict, ?v2)"
    using conflict_retried_exactly_once [OF k1 _ k2] by (simp (no_asm_use)) blast
  then have twice: "CreateOrUpdateOrDelete ?k (exampleComponent [?obj]) False ?w = (Some Conflict, ?v2)"
    using cmp by blast
  have updates2: "length (filter isUpdate (calls ?v2)) = 2" by code_simp
  show ?thesis
    using once updates1 twice updates2 by simp
qed

section \<open>Create-only mode\<close>



section \<open>Role bindings\<close>

text \<open>
  C6, as the claim states it, fails on a handler in create-only mode and for a live
  binding marked as ignored: the binding exists on the cluster with another
  role-reference name, and the engine issues the lookup and nothing else, because the
  checks of lines 295 and 308 come before the merge.
\<close>

theorem role_binding_not_recreated_counterexample:
  "storeGet (ObjectKeyFromObject (exampleRoleBinding ''admin'')) (clusterWith (exampleRoleBinding ''viewer'')) =
     (Inr (onCluster (exampleRoleBinding ''viewer'')), clusterWith (exampleRoleBinding ''viewer'')) \<and>
   Payload (exampleRoleBinding ''admin'') = RoleBinding ''admin'' ''subjects'' \<and>
   Payload (onCluster (exampleRoleBinding ''viewer'')) = RoleBinding ''viewer'' ''subjects'' \<and>
   fst (createOrUpdateObject (SetCreateOnly (handlerFor storeClient)) (exampleRoleBinding ''admin'') OSTypeAny
          (freshWorld (clusterWith (exampleRoleBinding ''viewer'')))) = Some AlreadyExists \<and>
   issued (freshWorld (clusterWith (exampleRoleBinding ''viewer'')))
     (snd (createOrUpdateObject (SetCreateOnly (handlerFor storeClient)) (exampleRoleBinding ''admin'')
             OSTypeAny (freshWorld (clusterWith (exampleRoleBinding ''viewer''))))) =
     [CallGet (KRoleBinding, ''ns'', ''rb'')] \<and>
   fst (createOrUpdateObject (ignoringAnnotated (handlerFor storeClient)) (exampleRoleBinding ''admin'')
          OSTypeAny (freshWorld (clusterWithIgnored (exampleRoleBinding ''viewer'')))) = None \<and>
   issued (freshWorld (clusterWithIgnored (exampleRoleBinding ''viewer'')))
     (snd (createOrUpdateObject (ignoringAnnotated (handlerFor storeClient)) (exampleRoleBinding ''admin'')
             OSTypeAny (freshWorld (clusterWithIgnored (exampleRoleBinding ''viewer''))))) =
     [CallGet (KRoleBinding, ''ns'', ''rb'')]"
  by code_simp

text \<open>
  C6, amended. Outside create-only mode and unless the live object is marked as ignored:
  for a desired role binding or cluster role binding that exists on the cluster with
  another role-reference name, once the lookup made before deleting finds the object
  and the delete succeeds, the engine's calls are the lookup, the second lookup, the
  delete, and the create of the merged object. The created payload has an empty
  resourceVersion, an empty UID and a zero creation timestamp, carries the merged
  annotations and the merged labels (current ones, overridden by desired ones, without
  the multiple-owners marker), and the desired binding itself.
\<close>

theorem role_binding_recreated:
  assumes owner: "addOwnerReference c (checkIfMultipleOwnersLabel (Meta obj0)) obj0 = Inr obj1"
      and mutated: "mutateObject c obj1 os w = (Inr obj, w1)"
      and found: "cli_get c (ObjectKeyFromObject obj1) w1 = (Inr cur, w2)"
      and mode: "\<not> createOnly c"
      and heeded: "\<not> IgnoreObject (ext c) cur"
      and kinds:
        "(Payload obj = RoleBinding ref other \<and> Payload cur = RoleBinding curRef curOther) \<or>
         (Payload obj = ClusterRoleBinding ref other \<and> Payload cur = ClusterRoleBinding curRef curOther)"
      and differs: "ref \<noteq> curRef"
      and still: "cli_get c (ObjectKeyFromObject obj) w2 = (Inr fetched, w3)"
      and deleted: "cli_delete c fetched w3 = (None, w4)"
      and payload: "payload = resetMetadataForCreate (obj\<lparr>Meta := mergeMeta (Meta obj) (Meta cur)\<rparr>)"
  shows "createOrUpdateObject c obj0 os w =
           create c payload (w4\<lparr>dCache := cache_delete (dCache w4) fetched\<rparr>) \<and>
         issued w (snd (createOrUpdateObject c obj0 os w)) =
           [CallGet (ObjectKeyFromObject obj1), CallGet (ObjectKeyFromObject obj),
            CallDelete fetched, CallCreate payload] \<and>
         ResourceVersion (Meta payload) = [] \<and> UID (Meta payload) = [] \<and>
         CreationTimestamp (Meta payload) = 0 \<and>
         Annotations (Meta payload) =
           Some (MergeMaps (MapExistsOrInitialize (Annotations (Meta cur)))
                           (MapExistsOrInitialize (Annotations (Meta obj)))) \<and>
         Labels (Meta payload) =
           (let merged = MergeMaps (MapExistsOrInitialize (Labels (Meta cur)))
                                   (MapExistsOrInitialize (Labels (Meta obj)))
            in Some (if fmlookup merged MultipleOwnersLabel \<noteq> None
                     then fmdrop MultipleOwnersLabel merged else merged)) \<and>
         Payload payload = Payload obj"
proof -
  let ?mobj = "obj\<lparr>Meta := mergeMeta (Meta obj) (Meta cur)\<rparr>"
  let ?wd = "w4\<lparr>dCache := cache_delete (dCache w4) fetched\<rparr>"
  have step: "createOrUpdateObject c obj0 os w = updateExisting c obj cur w2"
    using owner mutated found by (rule createOrUpdateObject_found)
  have "updateExisting c obj cur w2 = recreate c obj ?mobj w2"
    using mode heeded mergeState_default [OF kinds] differs by (simp add: updateExisting_def)
  moreover have del: "delete c obj w2 = (None, ?wd)"
    using still deleted by (simp add: delete_def Let_def)
  ultimately have run: "createOrUpdateObject c obj0 os w = create c payload ?wd"
    using step payload by (simp add: recreate_def)
  obtain r w' where rw: "create c payload ?wd = (r, w')"
    by (cases "create c payload ?wd")
  have "calls w2 = calls w @ [CallGet (ObjectKeyFromObject obj1)]"
    using mutated found by (rule lookup_calls)
  moreover have "calls w3 = calls w2 @ [CallGet (ObjectKeyFromObject obj)]"
    using still cli_get_log by blast
  moreover have "calls ?wd = calls w3 @ [CallDelete fetched]"
    using deleted cli_delete_log by fastforce
  moreover have "calls w' = calls ?wd @ [CallCreate payload]"
    using rw by (rule create_log)
  ultimately have "calls w' = calls w @ [CallGet (ObjectKeyFromObject obj1),
      CallGet (ObjectKeyFromObject obj), CallDelete fetched, CallCreate payload]"
    by simp
  from issued_facts(1) [OF this]
  have trace: "issued w (snd (createOrUpdateObject c obj0 os w)) =
                 [CallGet (ObjectKeyFromObject obj1), CallGet (ObjectKeyFromObject obj),
                  CallDelete fetched, CallCreate payload]"
    using run rw by simp
  have cleared: "ResourceVersion (Meta payload) = [] \<and> UID (Meta payload) = [] \<and>
                 CreationTimestamp (Meta payload) = 0 \<and> Payload payload = Payload obj"
    using payload by (simp add: resetMetadataForCreate_def)
  have kept: "Annotations (Meta payload) = Annotations (mergeMeta (Meta obj) (Meta cur)) \<and>
              Labels (Meta payload) = Labels (mergeMeta (Meta obj) (Meta cur))"
    using payload by (simp add: resetMetadataForCreate_def)
  show ?thesis
    using run trace cleared kept by (simp add: mergeMeta_fields)
qed

text \<open>A binding to role \<open>viewer\<close> on the cluster, desired with role \<open>admin\<close>.\<close>

theorem role_binding_recreated_witness:
  "issued (freshWorld (clusterWith (exampleRoleBinding ''viewer'')))
     (snd (createOrUpdateObject (handlerFor storeClient) (exampleRoleBinding ''admin'') OSTypeAny
             (freshWorld (clusterWith (exampleRoleBinding ''viewer''))))) =
     [CallGet (KRoleBinding, ''ns'', ''rb''), CallGet (KRoleBinding, ''ns'', ''rb''),
      CallDelete (onCluster (exampleRoleBinding ''viewer'')),
      CallCreate
        \<lparr>Meta = emptyMeta\<lparr>Namespace := ''ns'', Name := ''rb'', Generation := 1,
                           Labels := Some (fmupd ''app'' ''calico'' fmempty),
                           Annotations := Some fmempty\<rparr>,
         Payload = RoleBinding ''admin'' ''subjects''\<rparr>]"
proof -
  let ?h = "handlerFor storeClient" and ?w = "freshWorld (clusterWith (exampleRoleBinding ''viewer''))"
  let ?obj = "exampleRoleBinding ''admin''" and ?cur = "onCluster (exampleRoleBinding ''viewer'')"
  let ?key = "(KRoleBinding, ''ns'', ''rb'')"
  let ?wb = "snd (cli_get ?h ?key ?w)"
  let ?wc = "snd (cli_get ?h ?key ?wb)"
  let ?wd = "snd (cli_delete ?h ?cur ?wc)"
  let ?payload = "resetMetadataForCreate (?obj\<lparr>Meta := mergeMeta (Meta ?obj) (Meta ?cur)\<rparr>)"
  have key: "ObjectKeyFromObject ?obj = ?key" by code_simp
  have owner: "addOwnerReference ?h (checkIfMultipleOwnersLabel (Meta ?obj)) ?obj = Inr ?obj"
    by code_simp
  have mutated: "mutateObject ?h ?obj OSTypeAny ?w = (Inr ?obj, ?w)"
    by code_simp
  have "fst (cli_get ?h ?key ?w) = Inr ?cur" by code_simp
  then have found: "cli_get ?h (ObjectKeyFromObject ?obj) ?w = (Inr ?cur, ?wb)"
    by (simp add: prod_eq_iff key)
  have mode: "\<not> createOnly ?h" by code_simp
  have heeded: "\<not> IgnoreObject (ext ?h) ?cur" by code_simp
  have kinds: "(Payload ?obj = RoleBinding ''admin'' ''subjects'' \<and>
                Payload ?cur = RoleBinding ''viewer'' ''subjects'') \<or>
               (Payload ?obj = ClusterRoleBinding ''admin'' ''subjects'' \<and>
                Payload ?cur = ClusterRoleBinding ''viewer'' ''subjects'')"
    by code_simp
  have differs: "''admin'' \<noteq> ''viewer''" by simp
  have "fst (cli_get ?h ?key ?wb) = Inr ?cur" by code_simp
  then have still: "cli_get ?h (ObjectKeyFromObject ?obj) ?wb = (Inr ?cur, ?wc)"
    by (simp add: prod_eq_iff key)
  have "fst (cli_delete ?h ?cur ?wc) = None" by code_simp
  then have deleted: "cli_delete ?h ?cur ?wc = (None, ?wd)"
    by (simp add: prod_eq_iff)
  have shape: "?payload =
        \<lparr>Meta = emptyMeta\<lparr>Namespace := ''ns'', Name := ''rb'', Generation := 1,
                           Labels := Some (fmupd ''app'' ''calico'' fmempty),
                           Annotations := Some fmempty\<rparr>,
         Payload = RoleBinding ''admin'' ''subjects''\<rparr>"
    by code_simp
  have "issued ?w (snd (createOrUpdateObject ?h ?obj OSTypeAny ?w)) =
          [CallGet (ObjectKeyFromObject ?obj), CallGet (ObjectKeyFromObject ?obj),
           CallDelete ?cur, CallCreate ?payload]"
    using role_binding_recreated [OF owner mutated found mode heeded kinds differs still deleted refl]
    by blast
  then show ?thesis
    by (simp only: key shape)
qed

section \<open>Jobs\<close>

text \<open>
  C7, as the claim states it, fails on a handler in create-only mode and for a live Job
  marked as ignored: the desired image differs from the live one and the merge returns
  an object, yet the engine issues the lookup and nothing else: no delete, no create.
\<close>

theorem job_not_recreated_counterexample:
  "storeGet (ObjectKeyFromObject (exampleJob ''v2'')) (clusterWith (exampleJob ''v1'')) =
     (Inr (onCluster (exampleJob ''v1'')), clusterWith (exampleJob ''v1'')) \<and>
   mergeState (exampleJob ''v2'') (onCluster (exampleJob ''v1'')) \<noteq> None \<and>
   fst (createOrUpdateObject (SetCreateOnly (handlerFor storeClient)) (exampleJob ''v2'') OSTypeAny
          (freshWorld (clusterWith (exampleJob ''v1'')))) = Some AlreadyExists \<and>
   issued (freshWorld (clusterWith (exampleJob ''v1'')))
     (snd (createOrUpdateObject (SetCreateOnly (handlerFor storeClient)) (exampleJob ''v2'') OSTypeAny
             (freshWorld (clusterWith (exampleJob ''v1''))))) = [CallGet (KJob, ''ns'', ''job'')] \<and>
   fst (createOrUpdateObject (ignoringAnnotated (handlerFor storeClient)) (exampleJob ''v2'') OSTypeAny
          (freshWorld (clusterWithIgnored (exampleJob ''v1'')))) = None \<and>
   issued (freshWorld (clusterWithIgnored (exampleJob ''v1'')))
     (snd (createOrUpdateObject (ignoringAnnotated (handlerFor storeClient)) (exampleJob ''v2'') OSTypeAny
             (freshWorld (clusterWithIgnored (exampleJob ''v1''))))) = [CallGet (KJob, ''ns'', ''job'')]"
  by code_simp

text \<open>
  C7, amended. For a desired Job that exists on the cluster, outside create-only mode and
  unless the live Job is marked as ignored: \<^verbatim>\<open>mergeState\<close> returns nil exactly when the
  number of containers, the list of their images and the pod-template annotations agree
  between current and desired, and then the engine returns without any write.
  Otherwise the merged object is the desired one with merged metadata, no update call
  is ever issued and some delete or create call is; when the lookup made before
  deleting finds the Job, the calls begin with the lookup, the second lookup and the
  delete of the fetched Job, and when that delete succeeds they end with the create of
  the merged object, its metadata reset.
\<close>

theorem job_recreated_never_updated:
  assumes owner: "addOwnerReference c (checkIfMultipleOwnersLabel (Meta obj0)) obj0 = Inr obj1"
      and mutated: "mutateObject c obj1 os w = (Inr obj, w1)"
      and found: "cli_get c (ObjectKeyFromObject obj1) w1 = (Inr cur, w2)"
      and mode: "\<not> createOnly c"
      and heeded: "\<not> IgnoreObject (ext c) cur"
      and desired: "Payload obj = Job dj"
      and current: "Payload cur = Job cj"
  shows "(mergeState obj cur = None \<longleftrightarrow>
            length (Containers (TemplateSpec cj)) = length (Containers (TemplateSpec dj)) \<and>
            map Image (Containers (TemplateSpec cj)) = map Image (Containers (TemplateSpec dj)) \<and>
            TemplateAnnotations cj = TemplateAnnotations dj) \<and>
         (mergeState obj cur = None \<longrightarrow>
            createOrUpdateObject c obj0 os w = (None, w2) \<and> writes w w2 = []) \<and>
         (\<forall>mobj. mergeState obj cur = Some mobj \<longrightarrow>
            mobj = obj\<lparr>Meta := mergeMeta (Meta obj) (Meta cur)\<rparr> \<and>
            createOrUpdateObject c obj0 os w = recreate c obj mobj w2 \<and>
            filter isUpdate (issued w (snd (createOrUpdateObject c obj0 os w))) = [] \<and>
            writes w (snd (createOrUpdateObject c obj0 os w)) \<noteq> [] \<and>
            (\<forall>w3. delete c obj w2 = (None, w3) \<longrightarrow>
               createOrUpdateObject c obj0 os w = create c (resetMetadataForCreate mobj) w3 \<and>
               last (issued w (snd (createOrUpdateObject c obj0 os w))) =
                 CallCreate (resetMetadataForCreate mobj)) \<and>
            (\<forall>fetched w3 d w4.
               cli_get c (ObjectKeyFromObject obj) w2 = (Inr fetched, w3) \<and>
               cli_delete c fetched w3 = (d, w4) \<longrightarrow>
               take 3 (issued w (snd (createOrUpdateObject c obj0 os w))) =
                 [CallGet (ObjectKeyFromObject obj1), CallGet (ObjectKeyFromObject obj),
                  CallDelete fetched] \<and>
               (d = None \<longrightarrow>
                  issued w (snd (createOrUpdateObject c obj0 os w)) =
                    [CallGet (ObjectKeyFromObject obj1), CallGet (ObjectKeyFromObject obj),
                     CallDelete fetched, CallCreate (resetMetadataForCreate mobj)])))"
proof -
  note merged = mergeState_Job [OF desired current]
  have step: "createOrUpdateObject c obj0 os w = updateExisting c obj cur w2"
    using owner mutated found by (rule createOrUpdateObject_found)
  have base: "calls w2 = calls w @ [CallGet (ObjectKeyFromObject obj1)]"
    using mutated found by (rule lookup_calls)
  have always: "needsRecreate obj cur"
    using desired by (simp add: needsRecreate_def)
  have unchanged: "createOrUpdateObject c obj0 os w = (None, w2) \<and> writes w w2 = []"
    if "mergeState obj cur = None"
    using step that mode heeded issued_facts(2) [OF base]
    by (simp add: updateExisting_def)
  have changed:
    "mobj = obj\<lparr>Meta := mergeMeta (Meta obj) (Meta cur)\<rparr> \<and>
     createOrUpdateObject c obj0 os w = recreate c obj mobj w2 \<and>
     filter isUpdate (issued w (snd (createOrUpdateObject c obj0 os w))) = [] \<and>
     writes w (snd (createOrUpdateObject c obj0 os w)) \<noteq> [] \<and>
     (\<forall>w3. delete c obj w2 = (None, w3) \<longrightarrow>
        createOrUpdateObject c obj0 os w = create c (resetMetadataForCreate mobj) w3 \<and>
        last (issued w (snd (createOrUpdateObject c obj0 os w))) =
          CallCreate (resetMetadataForCreate mobj)) \<and>
     (\<forall>fetched w3 d w4.
        cli_get c (ObjectKeyFromObject obj) w2 = (Inr fetched, w3) \<and>
        cli_delete c fetched w3 = (d, w4) \<longrightarrow>
        take 3 (issued w (snd (createOrUpdateObject c obj0 os w))) =
          [CallGet (ObjectKeyFromObject obj1), CallGet (ObjectKeyFromObject obj),
           CallDelete fetched] \<and>
        (d = None \<longrightarrow>
           issued w (snd (createOrUpdateObject c obj0 os w)) =
             [CallGet (ObjectKeyFromObject obj1), CallGet (ObjectKeyFromObject obj),
              CallDelete fetched, CallCreate (resetMetadataForCreate mobj)]))"
    if some: "mergeState obj cur = Some mobj" for mobj
  proof -
    have shape: "mobj = obj\<lparr>Meta := mergeMeta (Meta obj) (Meta cur)\<rparr>"
      using some merged by (simp split: if_splits)
    have run: "createOrUpdateObject c obj0 os w = recreate c obj mobj w2"
      using step some mode heeded always by (simp add: updateExisting_def)
    obtain r w' where rw: "recreate c obj mobj w2 = (r, w')"
      by (cases "recreate c obj mobj w2")
    from recreate_log [OF this] obtain xs where
      xs: "calls w' = calls w2 @ xs" "list_all (\<lambda>x. \<not> isUpdate x) xs"
          "list_ex (\<lambda>x. isCreate x \<or> isDelete x) xs"
      by blast
    have total: "calls w' = calls w @ (CallGet (ObjectKeyFromObject obj1) # xs)"
      using base xs(1) by simp
    have res: "snd (createOrUpdateObject c obj0 os w) = w'"
      using run rw by simp
    have noupdate: "filter isUpdate (issued w (snd (createOrUpdateObject c obj0 os w))) = []"
      unfolding res using issued_facts(1) [OF total] xs(2)
      by (simp add: filter_empty_conv list_all_iff)
    have written: "writes w (snd (createOrUpdateObject c obj0 os w)) \<noteq> []"
      unfolding res using issued_facts(2) [OF total] xs(3)
      by (auto simp: filter_empty_conv list_ex_iff)
    have after: "\<forall>w3. delete c obj w2 = (None, w3) \<longrightarrow>
                 createOrUpdateObject c obj0 os w = create c (resetMetadataForCreate mobj) w3 \<and>
                 last (issued w (snd (createOrUpdateObject c obj0 os w))) =
                   CallCreate (resetMetadataForCreate mobj)"
    proof (intro allI impI)
      fix w3
      assume del: "delete c obj w2 = (None, w3)"
      have cr: "recreate c obj mobj w2 = create c (resetMetadataForCreate mobj) w3"
        using del by (simp add: recreate_def)
      then have "create c (resetMetadataForCreate mobj) w3 = (r, w')"
        using rw by simp
      then have "calls w' = calls w3 @ [CallCreate (resetMetadataForCreate mobj)]"
        by (rule create_log)
      moreover from delete_log [OF del] obtain ys where "calls w3 = calls w2 @ ys"
        by blast
      ultimately have "calls w' = calls w @ (CallGet (ObjectKeyFromObject obj1) # ys @
                                             [CallCreate (resetMetadataForCreate mobj)])"
        using base by simp
      from issued_facts(1) [OF this]
      have "last (issued w w') = CallCreate (resetMetadataForCreate mobj)"
        by simp
      then show "createOrUpdateObject c obj0 os w = create c (resetMetadataForCreate mobj) w3 \<and>
                 last (issued w (snd (createOrUpdateObject c obj0 os w))) =
                   CallCreate (resetMetadataForCreate mobj)"
        unfolding res using run cr by simp
    qed
    have deleting: "\<forall>fetched w3 d w4.
        cli_get c (ObjectKeyFromObject obj) w2 = (Inr fetched, w3) \<and>
        cli_delete c fetched w3 = (d, w4) \<longrightarrow>
        take 3 (issued w (snd (createOrUpdateObject c obj0 os w))) =
          [CallGet (ObjectKeyFromObject obj1), CallGet (ObjectKeyFromObject obj),
           CallDelete fetched] \<and>
        (d = None \<longrightarrow>
           issued w (snd (createOrUpdateObject c obj0 os w)) =
             [CallGet (ObjectKeyFromObject obj1), CallGet (ObjectKeyFromObject obj),
              CallDelete fetched, CallCreate (resetMetadataForCreate mobj)])"
    proof (intro allI impI)
      fix fetched w3 d w4
      assume "cli_get c (ObjectKeyFromObject obj) w2 = (Inr fetched, w3) \<and>
              cli_delete c fetched w3 = (d, w4)"
      then obtain wd where
        del: "delete c obj w2 = (d, wd)" and
        wd: "calls wd = calls w2 @ [CallGet (ObjectKeyFromObject obj), CallDelete fetched]"
        using delete_found by blast
      show "take 3 (issued w (snd (createOrUpdateObject c obj0 os w))) =
              [CallGet (ObjectKeyFromObject obj1), CallGet (ObjectKeyFromObject obj),
               CallDelete fetched] \<and>
            (d = None \<longrightarrow>
               issued w (snd (createOrUpdateObject c obj0 os w)) =
                 [CallGet (ObjectKeyFromObject obj1), CallGet (ObjectKeyFromObject obj),
                  CallDelete fetched, CallCreate (resetMetadataForCreate mobj)])"
      proof (cases d)
        case (Some err)
        then have "w' = wd"
          using rw del by (simp add: recreate_def)
        then have "calls w' = calls w @ [CallGet (ObjectKeyFromObject obj1),
                     CallGet (ObjectKeyFromObject obj), CallDelete fetched]"
          using base wd by simp
        from issued_facts(1) [OF this] show ?thesis
          unfolding res using Some by simp
      next
        case None
        then have "create c (resetMetadataForCreate mobj) wd = (r, w')"
          using rw del by (simp add: recreate_def)
        then have "calls w' = calls wd @ [CallCreate (resetMetadataForCreate mobj)]"
          by (rule create_log)
        then have "calls w' = calls w @ [CallGet (ObjectKeyFromObject obj1),
                     CallGet (ObjectKeyFromObject obj), CallDelete fetched,
                     CallCreate (resetMetadataForCreate mobj)]"
          using base wd by simp
        from issued_facts(1) [OF this] show ?thesis
          unfolding res by simp
      qed
    qed
    show ?thesis
      using shape run noupdate written after deleting by blast
  qed
  have iff: "mergeState obj cur = None \<longleftrightarrow>
            length (Containers (TemplateSpec cj)) = length (Containers (TemplateSpec dj)) \<and>
            map Image (Containers (TemplateSpec cj)) = map Image (Containers (TemplateSpec dj)) \<and>
            TemplateAnnotations cj = TemplateAnnotations dj"
    using merged by (simp split: if_splits)
  show ?thesis
    using iff unchanged changed by blast
qed

text \<open>A Job whose image is unchanged, and the same Job with a new image.\<close>

theorem job_recreated_never_updated_witness:
  "createOrUpdateObject (handlerFor storeClient) (exampleJob ''v1'') OSTypeAny
     (freshWorld (clusterWith (exampleJob ''v1''))) =
     (None, snd (cli_get (handlerFor storeClient) (ObjectKeyFromObject (exampleJob ''v1''))
                   (freshWorld (clusterWith (exampleJob ''v1''))))) \<and>
   filter isUpdate (issued (freshWorld (clusterWith (exampleJob ''v1'')))
     (snd (createOrUpdateObject (handlerFor storeClient) (exampleJob ''v2'') OSTypeAny
             (freshWorld (clusterWith (exampleJob ''v1'')))))) = [] \<and>
   last (issued (freshWorld (clusterWith (exampleJob ''v1'')))
     (snd (createOrUpdateObject (handlerFor storeClient) (exampleJob ''v2'') OSTypeAny
             (freshWorld (clusterWith (exampleJob ''v1'')))))) =
     CallCreate (resetMetadataForCreate
       ((exampleJob ''v2'')\<lparr>Meta := mergeMeta (Meta (exampleJob ''v2''))
                                      (Meta (onCluster (exampleJob ''v1'')))\<rparr>)) \<and>
   issued (freshWorld (clusterWith (exampleJob ''v1'')))
     (snd (createOrUpdateObject (handlerFor storeClient) (exampleJob ''v2'') OSTypeAny
             (freshWorld (clusterWith (exampleJob ''v1''))))) =
     [CallGet (KJob, ''ns'', ''job''), CallGet (KJob, ''ns'', ''job''),
      CallDelete (onCluster (exampleJob ''v1'')),
      CallCreate (resetMetadataForCreate
        ((exampleJob ''v2'')\<lparr>Meta := mergeMeta (Meta (exampleJob ''v2''))
                                       (Meta (onCluster (exampleJob ''v1'')))\<rparr>))]"
proof -
  let ?h = "handlerFor storeClient" and ?w = "freshWorld (clusterWith (exampleJob ''v1''))"
  let ?same = "exampleJob ''v1''" and ?new = "exampleJob ''v2''"
  let ?cur = "onCluster (exampleJob ''v1'')"
  let ?wb = "snd (cli_get ?h (ObjectKeyFromObject ?same) ?w)"
  let ?template = "\<lparr>TemplateLabels = None, TemplateAnnotations = None,
                     TemplateSpec = \<lparr>NodeSelector = None, Containers = [containerOf ''v1''], Volumes = []\<rparr>\<rparr>"
  let ?template' = "\<lparr>TemplateLabels = None, TemplateAnnotations = None,
                     TemplateSpec = \<lparr>NodeSelector = None, Containers = [containerOf ''v2''], Volumes = []\<rparr>\<rparr>"
  have mode: "\<not> createOnly ?h" by code_simp
  have heeded: "\<not> IgnoreObject (ext ?h) ?cur" by code_simp
  have current: "Payload ?cur = Job ?template" by code_simp
  have owner: "addOwnerReference ?h (checkIfMultipleOwnersLabel (Meta ?same)) ?same = Inr ?same"
    by code_simp
  have mutated: "mutateObject ?h ?same OSTypeAny ?w = (Inr ?same, ?w)"
    by code_simp
  have "fst (cli_get ?h (ObjectKeyFromObject ?same) ?w) = Inr ?cur"
    by code_simp
  then have found: "cli_get ?h (ObjectKeyFromObject ?same) ?w = (Inr ?cur, ?wb)"
    by (simp add: prod_eq_iff)
  have desired: "Payload ?same = Job ?template" by code_simp
  have unchanged: "createOrUpdateObject ?h ?same OSTypeAny ?w = (None, ?wb)"
    using job_recreated_never_updated [OF owner mutated found mode heeded desired current]
    by simp
  have owner': "addOwnerReference ?h (checkIfMultipleOwnersLabel (Meta ?new)) ?new = Inr ?new"
    by code_simp
  have mutated': "mutateObject ?h ?new OSTypeAny ?w = (Inr ?new, ?w)"
    by code_simp
  have "fst (cli_get ?h (ObjectKeyFromObject ?new) ?w) = Inr ?cur"
    by code_simp
  then have found': "cli_get ?h (ObjectKeyFromObject ?new) ?w =
                       (Inr ?cur, snd (cli_get ?h (ObjectKeyFromObject ?new) ?w))"
    by (simp add: prod_eq_iff)
  have desired': "Payload ?new = Job ?template'" by code_simp
  have images: "map Image (Containers (TemplateSpec ?template)) \<noteq>
                map Image (Containers (TemplateSpec ?template'))"
    by code_simp
  have "fst (delete ?h ?new (snd (cli_get ?h (ObjectKeyFromObject ?new) ?w))) = None"
    by code_simp
  then have deleted: "delete ?h ?new (snd (cli_get ?h (ObjectKeyFromObject ?new) ?w)) =
                        (None, snd (delete ?h ?new (snd (cli_get ?h (ObjectKeyFromObject ?new) ?w))))"
    by (simp add: prod_eq_iff)
  note T = job_recreated_never_updated [OF owner' mutated' found' mode heeded desired' current]
  have merged: "mergeState ?new ?cur = Some (?new\<lparr>Meta := mergeMeta (Meta ?new) (Meta ?cur)\<rparr>)"
    using T images by (cases "mergeState ?new ?cur") auto
  have changed:
    "filter isUpdate (issued ?w (snd (createOrUpdateObject ?h ?new OSTypeAny ?w))) = [] \<and>
     last (issued ?w (snd (createOrUpdateObject ?h ?new OSTypeAny ?w))) =
       CallCreate (resetMetadataForCreate (?new\<lparr>Meta := mergeMeta (Meta ?new) (Meta ?cur)\<rparr>))"
    using T merged deleted by blast
  let ?wg = "snd (cli_get ?h (ObjectKeyFromObject ?new) ?w)"
  have key: "ObjectKeyFromObject ?new = (KJob, ''ns'', ''job'')"
    by code_simp
  have "fst (cli_get ?h (ObjectKeyFromObject ?new) ?wg) = Inr ?cur"
    by code_simp
  then have still: "cli_get ?h (ObjectKeyFromObject ?new) ?wg =
                      (Inr ?cur, snd (cli_get ?h (ObjectKeyFromObject ?new) ?wg))"
    by (simp add: prod_eq_iff)
  have "fst (cli_delete ?h ?cur (snd (cli_get ?h (ObjectKeyFromObject ?new) ?wg))) = None"
    by code_simp
  then have gone: "cli_delete ?h ?cur (snd (cli_get ?h (ObjectKeyFromObject ?new) ?wg)) =
                     (None, snd (cli_delete ?h ?cur (snd (cli_get ?h (ObjectKeyFromObject ?new) ?wg))))"
    by (simp add: prod_eq_iff)
  have "issued ?w (snd (createOrUpdateObject ?h ?new OSTypeAny ?w)) =
          [CallGet (ObjectKeyFromObject ?new), CallGet (ObjectKeyFromObject ?new), CallDelete ?cur,
           CallCreate (resetMetadataForCreate (?new\<lparr>Meta := mergeMeta (Meta ?new) (Meta ?cur)\<rparr>))]"
    using T merged still gone by blast
  then have calls: "issued ?w (snd (createOrUpdateObject ?h ?new OSTypeAny ?w)) =
          [CallGet (KJob, ''ns'', ''job''), CallGet (KJob, ''ns'', ''job''), CallDelete ?cur,
           CallCreate (resetMetadataForCreate (?new\<lparr>Meta := mergeMeta (Meta ?new) (Meta ?cur)\<rparr>))]"
    by (simp only: key)
  show ?thesis
    using unchanged changed calls by simp
qed

section \<open>Resources whose status another controller writes\<close>

text \<open>
  C8, at a failing input. The desired Elasticsearch resource and the one on the cluster
  have the same spec; the cluster's copy carries annotations, a finalizer and a status
  written by its own controller; the cache is empty, as after a restart. \<^verbatim>\<open>mergeState\<close>
  returns the current object, which is not nil, so the engine goes on to
  \<^verbatim>\<open>update\<close> and an update call carrying the current object is issued.
\<close>

theorem elasticsearch_unchanged_spec_update_issued:
  "storeGet (ObjectKeyFromObject exampleElasticsearch) clusterWithElasticsearch =
     (Inr managedElasticsearch, clusterWithElasticsearch) \<and>
   mergeState exampleElasticsearch managedElasticsearch = Some managedElasticsearch \<and>
   createOnly (handlerFor storeClient) = False \<and>
   fst (createOrUpdateObject (handlerFor storeClient) exampleElasticsearch OSTypeAny
          (freshWorld clusterWithElasticsearch)) = None \<and>
   writes (freshWorld clusterWithElasticsearch)
     (snd (createOrUpdateObject (handlerFor storeClient) exampleElasticsearch OSTypeAny
             (freshWorld clusterWithElasticsearch))) = [CallUpdate managedElasticsearch]"
  by code_simp

section \<open>Objects in a terminating namespace\<close>

text \<open>
  C9. When the lookup of a desired object answers not-found and the lookup of its
  namespace returns a namespace with a deletion timestamp, \<^verbatim>\<open>createOrUpdateObject\<close>
  returns no error and the only client calls it issued are the two lookups: no create
  call. When the namespace lookup fails with an error other than not-found, that error
  is returned, again without any write.
\<close>

theorem terminating_namespace_skips_create:
  assumes owner: "addOwnerReference c (checkIfMultipleOwnersLabel (Meta obj0)) obj0 = Inr obj1"
      and mutated: "mutateObject c obj1 os w = (Inr obj, w1)"
      and missing: "cli_get c (ObjectKeyFromObject obj1) w1 = (Inl err, w2)"
      and notFound: "IsNotFound err"
      and namespaced: "Namespace (Meta obj) \<noteq> []"
      and lookup: "cli_get c (KNamespace, [], Namespace (Meta obj))
                     (w2\<lparr>dCache := cache_delete (dCache w2) obj\<rparr>) = (reply, w3)"
  shows "(\<forall>namespace. reply = Inr namespace \<and> DeletionTimestamp (Meta namespace) \<noteq> None \<longrightarrow>
            createOrUpdateObject c obj0 os w = (None, w3) \<and>
            issued w w3 = [CallGet (ObjectKeyFromObject obj1),
                           CallGet (KNamespace, [], Namespace (Meta obj))] \<and>
            writes w w3 = []) \<and>
         (\<forall>nsErr. reply = Inl nsErr \<and> \<not> IsNotFound nsErr \<longrightarrow>
            createOrUpdateObject c obj0 os w = (Some nsErr, w3) \<and> writes w w3 = [])"
proof -
  let ?wd = "w2\<lparr>dCache := cache_delete (dCache w2) obj\<rparr>"
  have step: "createOrUpdateObject c obj0 os w =
                createMissing c (checkIfMultipleOwnersLabel (Meta obj0)) obj err w2"
    using owner mutated missing by (rule createOrUpdateObject_missing)
  have "calls w2 = calls w @ [CallGet (ObjectKeyFromObject obj1)]"
    using mutated missing by (rule lookup_calls)
  moreover have "calls w3 = calls ?wd @ [CallGet (KNamespace, [], Namespace (Meta obj))]"
    using lookup cli_get_log by blast
  ultimately have log: "calls w3 = calls w @ [CallGet (ObjectKeyFromObject obj1),
                                              CallGet (KNamespace, [], Namespace (Meta obj))]"
    by simp
  then have gets: "issued w w3 = [CallGet (ObjectKeyFromObject obj1),
                                  CallGet (KNamespace, [], Namespace (Meta obj))]"
    by (rule issued_append)
  then have nowrites: "writes w w3 = []"
    by (simp add: writes_def)
  have terminating: "createOrUpdateObject c obj0 os w = (None, w3)"
    if "reply = Inr namespace" "DeletionTimestamp (Meta namespace) \<noteq> None" for namespace
    using step notFound namespaced lookup that
    by (simp add: createMissing_def namespaceTerminating_def GetIfExists_def Let_def)
  have failing: "createOrUpdateObject c obj0 os w = (Some nsErr, w3)"
    if "reply = Inl nsErr" "\<not> IsNotFound nsErr" for nsErr
    using step notFound namespaced lookup that
    by (simp add: createMissing_def namespaceTerminating_def GetIfExists_def Let_def)
  show ?thesis
    using terminating failing gets nowrites by blast
qed

text \<open>
  A desired object in a namespace that is being deleted, and one whose namespace lookup
  times out.
\<close>

theorem terminating_namespace_skips_create_witness:
  "createOrUpdateObject (handlerFor storeClient) exampleConfigMap OSTypeAny
     (freshWorld clusterWithTerminatingNamespace) =
     (None,
      snd (cli_get (handlerFor storeClient) (KNamespace, [], ''ns'')
        (snd (cli_get (handlerFor storeClient) (ObjectKeyFromObject exampleConfigMap)
           (freshWorld clusterWithTerminatingNamespace))))) \<and>
   issued (freshWorld clusterWithTerminatingNamespace)
     (snd (createOrUpdateObject (handlerFor storeClient) exampleConfigMap OSTypeAny
        (freshWorld clusterWithTerminatingNamespace))) =
     [CallGet (ObjectKeyFromObject exampleConfigMap), CallGet (KNamespace, [], ''ns'')] \<and>
   fst (createOrUpdateObject (handlerFor namespaceLookupFails) exampleConfigMap OSTypeAny (freshWorld 0)) =
     Some (Other ''timeout'') \<and>
   writes (freshWorld 0)
     (snd (createOrUpdateObject (handlerFor namespaceLookupFails) exampleConfigMap OSTypeAny (freshWorld 0))) = []"
proof -
  let ?obj = exampleConfigMap
  let ?h = "handlerFor storeClient" and ?w = "freshWorld clusterWithTerminatingNamespace"
  let ?w2 = "snd (cli_get ?h (ObjectKeyFromObject ?obj) ?w)"
  let ?wd = "?w2\<lparr>dCache := cache_delete (dCache ?w2) ?obj\<rparr>"
  let ?w3 = "snd (cli_get ?h (KNamespace, [], ''ns'') ?wd)"
  have owner: "addOwnerReference ?h (checkIfMultipleOwnersLabel (Meta ?obj)) ?obj = Inr ?obj"
    by code_simp
  have mutated: "mutateObject ?h ?obj OSTypeAny ?w = (Inr ?obj, ?w)"
    by code_simp
  have "fst (cli_get ?h (ObjectKeyFromObject ?obj) ?w) = Inl NotFound"
    by code_simp
  then have missing: "cli_get ?h (ObjectKeyFromObject ?obj) ?w = (Inl NotFound, ?w2)"
    by (simp add: prod_eq_iff)
  have ns: "Namespace (Meta ?obj) = ''ns''"
    by code_simp
  have "fst (cli_get ?h (KNamespace, [], ''ns'') ?wd) = Inr terminatingNamespace"
    by code_simp
  then have lookup: "cli_get ?h (KNamespace, [], Namespace (Meta ?obj)) ?wd = (Inr terminatingNamespace, ?w3)"
    by (simp add: prod_eq_iff ns)
  have deleting: "DeletionTimestamp (Meta terminatingNamespace) \<noteq> None"
    by code_simp
  have same: "?w3 = snd (cli_get ?h (KNamespace, [], ''ns'') ?w2)"
    by code_simp
  have skipped: "createOrUpdateObject ?h ?obj OSTypeAny ?w = (None, ?w3) \<and>
                 issued ?w ?w3 = [CallGet (ObjectKeyFromObject ?obj), CallGet (KNamespace, [], ''ns'')]"
    using terminating_namespace_skips_create [OF owner mutated missing _ _ lookup] deleting ns
    by simp
  let ?k = "handlerFor namespaceLookupFails" and ?v = "freshWorld (0 :: nat)"
  let ?v2 = "snd (cli_get ?k (ObjectKeyFromObject ?obj) ?v)"
  let ?vd = "?v2\<lparr>dCache := cache_delete (dCache ?v2) ?obj\<rparr>"
  let ?v3 = "snd (cli_get ?k (KNamespace, [], ''ns'') ?vd)"
  have owner': "addOwnerReference ?k (checkIfMultipleOwnersLabel (Meta ?obj)) ?obj = Inr ?obj"
    by code_simp
  have mutated': "mutateObject ?k ?obj OSTypeAny ?v = (Inr ?obj, ?v)"
    by code_simp
  have "fst (cli_get ?k (ObjectKeyFromObject ?obj) ?v) = Inl NotFound"
    by code_simp
  then have missing': "cli_get ?k (ObjectKeyFromObject ?obj) ?v = (Inl NotFound, ?v2)"
    by (simp add: prod_eq_iff)
  have "fst (cli_get ?k (KNamespace, [], ''ns'') ?vd) = Inl (Other ''timeout'')"
    by code_simp
  then have lookup': "cli_get ?k (KNamespace, [], Namespace (Meta ?obj)) ?vd = (Inl (Other ''timeout''), ?v3)"
    by (simp add: prod_eq_iff ns)
  have failed: "createOrUpdateObject ?k ?obj OSTypeAny ?v = (Some (Other ''timeout''), ?v3) \<and>
                writes ?v ?v3 = []"
    using terminating_namespace_skips_create [OF owner' mutated' missing' _ _ lookup'] ns
    by simp
  show ?thesis
    using skipped failed same by simp
qed

section \<open>Ignored objects\<close>

text \<open>
  C10, as the claim states it, fails in create-only mode: the desired object exists on
  the cluster and is marked as ignored, and the call still returns an already-exists
  error, because the create-only check of line 295 comes before the ignore check of
  line 308.
\<close>

theorem ignored_object_create_only_counterexample:
  "IgnoreObject (ext (SetCreateOnly (ignoringAnnotated (handlerFor storeClient)))) annotatedConfigMap \<and>
   storeGet (ObjectKeyFromObject exampleConfigMap) clusterWithAnnotated =
     (Inr annotatedConfigMap, clusterWithAnnotated) \<and>
   fst (CreateOrUpdateOrDelete (SetCreateOnly (ignoringAnnotated (handlerFor storeClient)))
          (exampleComponent [exampleConfigMap]) False (freshWorld clusterWithAnnotated)) =
     Some AlreadyExists"
  by code_simp

text \<open>
  C10, amended. For a desired object that exists on the cluster and that
  \<^verbatim>\<open>IgnoreObject\<close> marks as ignored, the engine issues the lookup and nothing else: no
  create, update or delete, and the cache is untouched. Outside create-only mode it
  returns no error for that object; in create-only mode it reports the object as already
  existing. In both modes the loop goes on with the remaining objects.
\<close>

theorem ignored_object_left_alone:
  assumes owner: "addOwnerReference c (checkIfMultipleOwnersLabel (Meta obj0)) obj0 = Inr obj1"
      and mutated: "mutateObject c obj1 os w = (Inr obj, w1)"
      and found: "cli_get c (ObjectKeyFromObject obj1) w1 = (Inr cur, w2)"
      and ignored: "IgnoreObject (ext c) cur"
  shows "createOrUpdateObject c obj0 os w =
           ((if createOnly c then Some AlreadyExists else None), w2) \<and>
         issued w w2 = [CallGet (ObjectKeyFromObject obj1)] \<and>
         writes w w2 = [] \<and>
         dCache w2 = dCache w \<and>
         (\<forall>rest t. createObjects c os (obj0 # rest) t w =
            createObjects c os rest
              (trackObject obj0
                 (if createOnly c then t\<lparr>alreadyExistsErr := Some AlreadyExists\<rparr> else t)) w2)"
proof -
  have result: "createOrUpdateObject c obj0 os w =
                  ((if createOnly c then Some AlreadyExists else None), w2)"
    using createOrUpdateObject_found [OF owner mutated found] ignored
    by (simp add: updateExisting_def)
  have "calls w2 = calls w @ [CallGet (ObjectKeyFromObject obj1)]"
    using mutated found by (rule lookup_calls)
  then have gets: "issued w w2 = [CallGet (ObjectKeyFromObject obj1)]"
    by (rule issued_append)
  then have nowrites: "writes w w2 = []"
    by (simp add: writes_def)
  have cache: "dCache w2 = dCache w"
    using mutated found by (rule lookup_calls)
  have "createObjects c os (obj0 # rest) t w =
          createObjects c os rest
            (trackObject obj0
               (if createOnly c then t\<lparr>alreadyExistsErr := Some AlreadyExists\<rparr> else t)) w2"
    for rest t
    using result by (simp add: conflictRetry_False)
  then show ?thesis
    using result gets nowrites cache by blast
qed

text \<open>An annotated object on the cluster, in the default mode and in create-only mode.\<close>

theorem ignored_object_left_alone_witness:
  "createOrUpdateObject (ignoringAnnotated (handlerFor storeClient)) exampleConfigMap OSTypeAny
     (freshWorld clusterWithAnnotated) =
     (None, snd (cli_get (ignoringAnnotated (handlerFor storeClient))
                   (ObjectKeyFromObject exampleConfigMap) (freshWorld clusterWithAnnotated))) \<and>
   writes (freshWorld clusterWithAnnotated)
     (snd (createOrUpdateObject (ignoringAnnotated (handlerFor storeClient)) exampleConfigMap OSTypeAny
        (freshWorld clusterWithAnnotated))) = [] \<and>
   fst (createOrUpdateObject (SetCreateOnly (ignoringAnnotated (handlerFor storeClient))) exampleConfigMap
          OSTypeAny (freshWorld clusterWithAnnotated)) = Some AlreadyExists"
proof -
  let ?obj = exampleConfigMap
  let ?h = "ignoringAnnotated (handlerFor storeClient)" and ?w = "freshWorld clusterWithAnnotated"
  let ?w2 = "snd (cli_get ?h (ObjectKeyFromObject ?obj) ?w)"
  have owner: "addOwnerReference ?h (checkIfMultipleOwnersLabel (Meta ?obj)) ?obj = Inr ?obj"
    by code_simp
  have mutated: "mutateObject ?h ?obj OSTypeAny ?w = (Inr ?obj, ?w)"
    by code_simp
  have "fst (cli_get ?h (ObjectKeyFromObject ?obj) ?w) = Inr annotatedConfigMap"
    by code_simp
  then have found: "cli_get ?h (ObjectKeyFromObject ?obj) ?w = (Inr annotatedConfigMap, ?w2)"
    by (simp add: prod_eq_iff)
  have ignored: "IgnoreObject (ext ?h) annotatedConfigMap"
    by code_simp
  have mode: "\<not> createOnly ?h"
    by code_simp
  have normal: "createOrUpdateObject ?h ?obj OSTypeAny ?w = (None, ?w2) \<and> writes ?w ?w2 = []"
    using ignored_object_left_alone [OF owner mutated found ignored] mode by simp
  let ?k = "SetCreateOnly ?h"
  let ?v2 = "snd (cli_get ?k (ObjectKeyFromObject ?obj) ?w)"
  have owner': "addOwnerReference ?k (checkIfMultipleOwnersLabel (Meta ?obj)) ?obj = Inr ?obj"
    by code_simp
  have mutated': "mutateObject ?k ?obj OSTypeAny ?w = (Inr ?obj, ?w)"
    by code_simp
  have "fst (cli_get ?k (ObjectKeyFromObject ?obj) ?w) = Inr annotatedConfigMap"
    by code_simp
  then have found': "cli_get ?k (ObjectKeyFromObject ?obj) ?w = (Inr annotatedConfigMap, ?v2)"
    by (simp add: prod_eq_iff)
  have ignored': "IgnoreObject (ext ?k) annotatedConfigMap"
    by code_simp
  have mode': "createOnly ?k"
    by code_simp
  have reported: "createOrUpdateObject ?k ?obj OSTypeAny ?w = (Some AlreadyExists, ?v2)"
    using ignored_object_left_alone [OF owner' mutated' found' ignored'] mode' by simp
  show ?thesis
    using normal reported by simp
qed


end
